theory Spec2Isabelle
  imports Complex_Main
begin

section \<open>Rotor structure: a shallow embedding of rotor\_structure.py\<close>

text \<open>
  The components of \<^verbatim>\<open>wisdem/rotorse/rotor_structure.py\<close> are embedded as HOL
  functions. A numpy array of station values is a \<^typ>\<open>real list\<close>; an OpenMDAO scalar
  input (an array of shape (1,) that numpy broadcasts) is a \<^typ>\<open>real\<close>. Except for the
  margins, whose arithmetic is modelled in double precision, arithmetic is exact real
  arithmetic and the rounding of IEEE doubles is outside the embedding. Every theorem about
  a real quotient names the divisors it needs to be nonzero, since HOL's \<open>x / 0 = 0\<close> is
  not what numpy computes there.
\<close>

subsection \<open>numpy helpers\<close>


text \<open>
  \<^verbatim>\<open>np.arctan2(y, x)\<close>: the angle of the point \<open>(x, y)\<close> in \<open>(-pi, pi]\<close>,
  with \<open>arctan2(0, 0) = 0\<close>.
\<close>

definition arctan2 :: "real \<Rightarrow> real \<Rightarrow> real" where
  "arctan2 y x =
     (if 0 < x then arctan (y / x)
      else if x < 0 then (if 0 \<le> y then arctan (y / x) + pi else arctan (y / x) - pi)
      else if 0 < y then pi / 2
      else if y < 0 then - (pi / 2)
      else 0)"

subsection \<open>ExtremeLoads.compute\<close>

text \<open>
  \<^verbatim>\<open>
  n = float(discrete_inputs['nBlades'])
  T = inputs['T']
  Q = inputs['Q']
  T_extreme = (T[0] + T[1]*(n-1)) / n
  Q_extreme = (Q[0] + Q[1]*(n-1)) / n
  outputs['T_extreme'] = T_extreme
  outputs['Q_extreme'] = 0.0
  \<close>
  \<open>T\<close> and \<open>Q\<close> are declared with shape (2,): a pair.
\<close>

record ExtremeLoads_outputs =
  T_extreme :: real
  Q_extreme :: real

definition ExtremeLoads_compute :: "real \<times> real \<Rightarrow> real \<times> real \<Rightarrow> int \<Rightarrow> ExtremeLoads_outputs" where
  "ExtremeLoads_compute T Q nBlades =
     (let n = real_of_int nBlades;
          T_ext = (fst T + snd T * (n - 1)) / n;
          Q_ext = (fst Q + snd Q * (n - 1)) / n
      in \<lparr>T_extreme = T_ext, Q_extreme = 0\<rparr>)"

subsection \<open>Errors\<close>

text \<open>
  The exceptions the modelled code can raise: an index out of range, and two arrays whose
  shapes do not broadcast. numpy arithmetic on values raises nothing (a division by zero
  gives a warning and a non-finite value). The source has no \<^verbatim>\<open>raise\<close> statement and
  defines no exception class.
\<close>

datatype error = IndexError | ValueError

definition get :: "'a list \<Rightarrow> nat \<Rightarrow> error + 'a" where
  "get xs i = (if i < length xs then Inr (xs ! i) else Inl IndexError)"

definition bindE :: "error + 'a \<Rightarrow> ('a \<Rightarrow> error + 'b) \<Rightarrow> error + 'b" where
  "bindE m f = (case m of Inl e \<Rightarrow> Inl e | Inr v \<Rightarrow> f v)"

text \<open>A \<^verbatim>\<open>for\<close> loop that fills one output entry per index and stops at the first
  exception.\<close>

fun mapE :: "('a \<Rightarrow> error + 'b) \<Rightarrow> 'a list \<Rightarrow> error + 'b list" where
  "mapE f [] = Inr []"
| "mapE f (x # xs) =
     (case f x of
        Inl e \<Rightarrow> Inl e
      | Inr y \<Rightarrow> (case mapE f xs of Inl e \<Rightarrow> Inl e | Inr ys \<Rightarrow> Inr (y # ys)))"

subsection \<open>TipDeflection.compute\<close>

text \<open>
  \<^verbatim>\<open>DirectionVector\<close> lives in \<^verbatim>\<open>wisdem.commonse.csystem\<close>, outside the file. Its four
  rotations used here are parameters of the embedding: each takes the vector and the angle
  in degrees.
\<close>

datatype DirectionVector = DirectionVector (dv_x: real) (dv_y: real) (dv_z: real)

record csystem =
  airfoilToBlade :: "DirectionVector \<Rightarrow> real \<Rightarrow> DirectionVector"
  bladeToAzimuth :: "DirectionVector \<Rightarrow> real \<Rightarrow> DirectionVector"
  azimuthToHub :: "DirectionVector \<Rightarrow> real \<Rightarrow> DirectionVector"
  hubToYaw :: "DirectionVector \<Rightarrow> real \<Rightarrow> DirectionVector"

record TipDeflection_inputs =
  td_dx :: real
  td_dy :: real
  td_dz :: real
  td_theta :: real
  td_pitch :: real
  td_azimuth :: real
  td_tilt :: real
  td_totalConeTip :: real
  td_hubHt :: real
  td_downwind :: bool
  td_Rtip :: real
  td_precurveTip :: real
  td_presweepTip :: real
  td_precone :: real
  td_gamma_m :: real
  td_dynamicFactor :: real

record TipDeflection_outputs =
  tip_deflection :: real
  tip_position :: "real \<times> real \<times> real"
  ground_clearance :: real

text \<open>
  \<^verbatim>\<open>
  azimuth       = 180.0 #inputs['azimuth']
  ...
  theta = theta + pitch
  dr = DirectionVector(dx, dy, dz)
  delta = dr.airfoilToBlade(theta).bladeToAzimuth(totalConeTip).azimuthToHub(azimuth).hubToYaw(tilt)
  tip_deflection = dynamicFactor * delta.x
  dR = DirectionVector(precurve, presweep, rtip)
  blade_yaw = dR.bladeToAzimuth(totalConeTip).azimuthToHub(azimuth).hubToYaw(tilt)
  coeff = 1.0 if upwind else -1.0
  z_pos = inputs['hubHt'] + blade_yaw.z
  x_pos = coeff*blade_yaw.x + inputs['gamma_m'] * tip_deflection
  outputs['tip_position'] = np.array([x_pos, 0.0, z_pos])
  outputs['ground_clearance'] = z_pos
  \<close>
\<close>

definition TipDeflection_compute :: "csystem \<Rightarrow> TipDeflection_inputs \<Rightarrow> TipDeflection_outputs" where
  "TipDeflection_compute cs inputs =
     (let dx = td_dx inputs;
          dy = td_dy inputs;
          dz = td_dz inputs;
          theta = td_theta inputs;
          pitch = td_pitch inputs;
          azimuth = 180;
          precone = td_precone inputs;
          tilt = td_tilt inputs;
          totalConeTip = td_totalConeTip inputs;
          dynamicFactor = td_dynamicFactor inputs;
          precurve = td_precurveTip inputs;
          presweep = td_presweepTip inputs;
          rtip = td_Rtip inputs;
          upwind = (\<not> td_downwind inputs);
          theta = theta + pitch;
          dr = DirectionVector dx dy dz;
          delta = hubToYaw cs (azimuthToHub cs (bladeToAzimuth cs (airfoilToBlade cs dr theta)
                    totalConeTip) azimuth) tilt;
          tip_defl = dynamicFactor * dv_x delta;
          dR = DirectionVector precurve presweep rtip;
          blade_yaw = hubToYaw cs (azimuthToHub cs (bladeToAzimuth cs dR totalConeTip) azimuth) tilt;
          coeff = (if upwind then 1 else - 1);
          z_pos = td_hubHt inputs + dv_z blade_yaw;
          x_pos = coeff * dv_x blade_yaw + td_gamma_m inputs * tip_defl
      in \<lparr>tip_deflection = tip_defl, tip_position = (x_pos, 0, z_pos), ground_clearance = z_pos\<rparr>)"

text \<open>The chain of frames of the claim, written out: airfoil to blade by twist plus pitch,
  blade to azimuth by the total cone, azimuth to hub at 180 degrees, hub to yaw by the tilt.\<close>

definition airfoil_to_yaw_at_180 :: "csystem \<Rightarrow> TipDeflection_inputs \<Rightarrow> DirectionVector \<Rightarrow> DirectionVector" where
  "airfoil_to_yaw_at_180 cs inputs v =
     hubToYaw cs
       (azimuthToHub cs
          (bladeToAzimuth cs
             (airfoilToBlade cs v (td_theta inputs + td_pitch inputs))
             (td_totalConeTip inputs))
          180)
       (td_tilt inputs)"

definition blade_to_yaw_at_180 :: "csystem \<Rightarrow> TipDeflection_inputs \<Rightarrow> DirectionVector \<Rightarrow> DirectionVector" where
  "blade_to_yaw_at_180 cs inputs v =
     hubToYaw cs (azimuthToHub cs (bladeToAzimuth cs v (td_totalConeTip inputs)) 180)
       (td_tilt inputs)"

subsection \<open>PreCompSections.panelBucklingStrain\<close>

text \<open>
  \<^verbatim>\<open>CompositeSection\<close> is defined outside the file. What
  \<^verbatim>\<open>panelBucklingStrain\<close> reads of it is kept: the array \<^verbatim>\<open>loc\<close> of
  chordwise sector bounds, and, as parameters indexed by the sector, the results of
  \<^verbatim>\<open>compositeMatrices\<close> (the matrix \<open>D\<close> and the total height) and of
  \<^verbatim>\<open>effectiveEAxial\<close>.
  \<^verbatim>\<open>
  for i in range(nsec):
      cs = CS_list[i]
      sector_idx = sector_idx_strain[i]
      sector_length = chord[i] * (cs.loc[sector_idx+1] - cs.loc[sector_idx])
      A, B, D, totalHeight = cs.compositeMatrices(sector_idx)
      E = cs.effectiveEAxial(sector_idx)
      D1 = D[0, 0]
      D2 = D[1, 1]
      D3 = D[0, 1] + 2*D[2, 2]
      Nxx = 2 * (np.pi/sector_length)**2 * (np.sqrt(D1*D2) + D3)
      eps_crit[i] = - Nxx / totalHeight / E
  \<close>
\<close>

record PanelSection =
  loc :: "real list"
  compositeMatrices_D :: "nat \<Rightarrow> nat \<Rightarrow> nat \<Rightarrow> real"
  compositeMatrices_totalHeight :: "nat \<Rightarrow> real"
  effectiveEAxial :: "nat \<Rightarrow> real"

definition panelBucklingStrain_at :: "real \<Rightarrow> PanelSection \<Rightarrow> nat \<Rightarrow> error + real" where
  "panelBucklingStrain_at chord_i cs sector_idx =
     bindE (get (loc cs) (sector_idx + 1)) (\<lambda>loc_hi.
     bindE (get (loc cs) sector_idx) (\<lambda>loc_lo.
       let sector_length = chord_i * (loc_hi - loc_lo);
           D = compositeMatrices_D cs sector_idx;
           totalHeight = compositeMatrices_totalHeight cs sector_idx;
           E = effectiveEAxial cs sector_idx;
           D1 = D 0 0;
           D2 = D 1 1;
           D3 = D 0 1 + 2 * D 2 2;
           Nxx = 2 * (pi / sector_length)\<^sup>2 * (sqrt (D1 * D2) + D3)
       in Inr (- Nxx / totalHeight / E)))"

definition panelBucklingStrain ::
  "real list \<Rightarrow> PanelSection list \<Rightarrow> nat list \<Rightarrow> error + real list" where
  "panelBucklingStrain chord CS_list sector_idx_strain =
     mapE (\<lambda>i. bindE (get CS_list i) (\<lambda>cs.
                bindE (get sector_idx_strain i) (\<lambda>sector_idx.
                  panelBucklingStrain_at (chord ! i) cs sector_idx)))
       [0..<length chord]"

text \<open>
  The quantities of the claim: the sector length, the critical strain as the specification
  writes it, and the positive definiteness of the bending block of \<open>D\<close> (all that
  is needed of a physical laminate for the sign).
\<close>

definition sector_length :: "real \<Rightarrow> PanelSection \<Rightarrow> nat \<Rightarrow> real" where
  "sector_length chord_i cs sector_idx = chord_i * (loc cs ! (sector_idx + 1) - loc cs ! sector_idx)"

definition critical_strain :: "real \<Rightarrow> real \<Rightarrow> real \<Rightarrow> real \<Rightarrow> real \<Rightarrow> real \<Rightarrow> real" where
  "critical_strain L D1 D2 D3 E t = - (2 * (pi / L)\<^sup>2 * (sqrt (D1 * D2) + D3)) / (t * E)"

definition sector_critical_strain :: "real \<Rightarrow> PanelSection \<Rightarrow> nat \<Rightarrow> real" where
  "sector_critical_strain chord_i cs sector_idx =
     critical_strain (sector_length chord_i cs sector_idx)
       (compositeMatrices_D cs sector_idx 0 0)
       (compositeMatrices_D cs sector_idx 1 1)
       (compositeMatrices_D cs sector_idx 0 1 + 2 * compositeMatrices_D cs sector_idx 2 2)
       (effectiveEAxial cs sector_idx)
       (compositeMatrices_totalHeight cs sector_idx)"

definition positive_definite_D :: "PanelSection \<Rightarrow> nat \<Rightarrow> bool" where
  "positive_definite_D cs sector_idx =
     (0 < compositeMatrices_D cs sector_idx 0 0 \<and>
      0 < compositeMatrices_D cs sector_idx 1 1 \<and>
      (compositeMatrices_D cs sector_idx 0 1)\<^sup>2
        < compositeMatrices_D cs sector_idx 0 0 * compositeMatrices_D cs sector_idx 1 1 \<and>
      0 < compositeMatrices_D cs sector_idx 2 2)"

text \<open>One station, chord 2, spar sector from 0 to one half of the chord.\<close>

definition panel_example :: PanelSection where
  "panel_example =
     \<lparr>loc = [0, 1 / 2, 1],
      compositeMatrices_D = (\<lambda>k i j. if i = j then 1 else 0),
      compositeMatrices_totalHeight = (\<lambda>k. 1),
      effectiveEAxial = (\<lambda>k. 1)\<rparr>"

subsection \<open>RotorWithpBEAM: principal axes, strain and damage\<close>

text \<open>
  numpy applies every line of \<^verbatim>\<open>principalCS\<close>, \<^verbatim>\<open>strain\<close> and \<^verbatim>\<open>damage\<close>
  to whole arrays, station by station. The embedding writes each body once, on the values of
  one station (\<open>principalCS_at\<close>, \<open>strain_at\<close>, \<open>damage_at\<close>, line for line, with
  the source's rebinding of names kept as nested \<open>let\<close>), and maps it over the station
  indices. \<^verbatim>\<open>np.copy\<close> of an array of reals is the array.
  \<^verbatim>\<open>
  def principalCS(self, EIyy, EIxx, y_ec, x_ec, EA, EIxy):
      # rename (with swap of x, y for profile c.s.)
      EIxx = np.copy(EIyy)
      EIyy = np.copy(EIxx)
      x_ec = np.copy(y_ec)
      y_ec = np.copy(x_ec)
      self.EA = np.copy(EA)
      EIxy = np.copy(EIxy)
      # translate to elastic center
      EIxx -= y_ec**2*EA
      EIyy -= x_ec**2*EA
      EIxy -= x_ec*y_ec*EA
      # get rotation angle
      alpha = 0.5*np.arctan2(2*EIxy, EIyy-EIxx)
      self.EI11 = EIxx - EIxy*np.tan(alpha)
      self.EI22 = EIyy + EIxy*np.tan(alpha)
      # get moments and positions in principal axes
      self.ca = np.cos(alpha)
      self.sa = np.sin(alpha)
  \<close>
  The record holds the attributes the method sets on \<^verbatim>\<open>self\<close>, and its local
  \<^verbatim>\<open>alpha\<close>, which the statements below refer to.
\<close>

record principal_axes =
  self_EI11 :: real
  self_EI22 :: real
  self_EA :: real
  self_ca :: real
  self_sa :: real
  local_alpha :: real

definition principalCS_at :: "real \<Rightarrow> real \<Rightarrow> real \<Rightarrow> real \<Rightarrow> real \<Rightarrow> real \<Rightarrow> principal_axes" where
  "principalCS_at EIyy EIxx y_ec x_ec EA EIxy =
     (let EIxx = EIyy;
          EIyy = EIxx;
          x_ec = y_ec;
          y_ec = x_ec;
          EA_attr = EA;
          EIxy = EIxy;
          EIxx = EIxx - y_ec\<^sup>2 * EA;
          EIyy = EIyy - x_ec\<^sup>2 * EA;
          EIxy = EIxy - x_ec * y_ec * EA;
          alpha = (1 / 2) * arctan2 (2 * EIxy) (EIyy - EIxx);
          EI11 = EIxx - EIxy * tan alpha;
          EI22 = EIyy + EIxy * tan alpha;
          ca = cos alpha;
          sa = sin alpha
      in \<lparr>self_EI11 = EI11, self_EI22 = EI22, self_EA = EA_attr, self_ca = ca, self_sa = sa,
          local_alpha = alpha\<rparr>)"

definition principalCS ::
  "real list \<Rightarrow> real list \<Rightarrow> real list \<Rightarrow> real list \<Rightarrow> real list \<Rightarrow> real list \<Rightarrow> principal_axes list" where
  "principalCS EIyy EIxx y_ec x_ec EA EIxy =
     map (\<lambda>i. principalCS_at (EIyy ! i) (EIxx ! i) (y_ec ! i) (x_ec ! i) (EA ! i) (EIxy ! i))
       [0..<length EIyy]"

text \<open>
  The six arrays that \<^verbatim>\<open>blade.shearAndBending()\<close> returns; the beam solver \<^verbatim>\<open>_pBEAM\<close>
  is an external library, so they are a parameter.
\<close>

record shearAndBending =
  sb_Vx :: "real list"
  sb_Vy :: "real list"
  sb_Fz :: "real list"
  sb_Mx :: "real list"
  sb_My :: "real list"
  sb_Tz :: "real list"

text \<open>
  \<^verbatim>\<open>
  def strain(self, blade, xu, yu, xl, yl):
      Vx, Vy, Fz, Mx, My, Tz = blade.shearAndBending()
      # use profile c.s. to use Hansen's notation
      Vx, Vy = Vy, Vx
      Mx, My = My, Mx
      xu, yu = yu, xu
      xl, yl = yl, xl
      # convert to principal xes
      M1 = Mx*self.ca + My*self.sa
      M2 = -Mx*self.sa + My*self.ca
      x = xu*self.ca + yu*self.sa
      y = -xu*self.sa + yu*self.ca
      # compute strain
      strainU = -(M1/self.EI11*y - M2/self.EI22*x + Fz/self.EA)
      x = xl*self.ca + yl*self.sa
      y = -xl*self.sa + yl*self.ca
      strainL = -(M1/self.EI11*y - M2/self.EI22*x + Fz/self.EA)
      return strainU, strainL
  \<close>
\<close>

definition strain_at ::
  "principal_axes \<Rightarrow> real \<times> real \<times> real \<times> real \<times> real \<times> real \<Rightarrow>
   real \<Rightarrow> real \<Rightarrow> real \<Rightarrow> real \<Rightarrow> real \<times> real" where
  "strain_at self blade xu yu xl yl =
     (let (Vx, Vy, Fz, Mx, My, Tz) = blade;
          (Vx, Vy) = (Vy, Vx);
          (Mx, My) = (My, Mx);
          (xu, yu) = (yu, xu);
          (xl, yl) = (yl, xl);
          M1 = Mx * self_ca self + My * self_sa self;
          M2 = - Mx * self_sa self + My * self_ca self;
          x = xu * self_ca self + yu * self_sa self;
          y = - xu * self_sa self + yu * self_ca self;
          strainU = - (M1 / self_EI11 self * y - M2 / self_EI22 self * x + Fz / self_EA self);
          x = xl * self_ca self + yl * self_sa self;
          y = - xl * self_sa self + yl * self_ca self;
          strainL = - (M1 / self_EI11 self * y - M2 / self_EI22 self * x + Fz / self_EA self)
      in (strainU, strainL))"

definition shearAndBending_at :: "shearAndBending \<Rightarrow> nat \<Rightarrow> real \<times> real \<times> real \<times> real \<times> real \<times> real" where
  "shearAndBending_at blade i =
     (sb_Vx blade ! i, sb_Vy blade ! i, sb_Fz blade ! i, sb_Mx blade ! i, sb_My blade ! i,
      sb_Tz blade ! i)"

definition strain ::
  "principal_axes list \<Rightarrow> shearAndBending \<Rightarrow> real list \<Rightarrow> real list \<Rightarrow> real list \<Rightarrow> real list \<Rightarrow>
   real list \<times> real list" where
  "strain self blade xu yu xl yl =
     (let both = map (\<lambda>i. strain_at (self ! i) (shearAndBending_at blade i)
                            (xu ! i) (yu ! i) (xl ! i) (yl ! i)) [0..<length xu]
      in (map fst both, map snd both))"

text \<open>
  \<^verbatim>\<open>
  def damage(self, Mx, My, xu, yu, xl, yl, emax=0.01, eta=1.755, m=10.0, N=365*24*3600*24):
      Mx, My = My, Mx
      Fz = 0.0
      xu, yu = yu, xu
      xl, yl = yl, xl
      M1 = Mx*self.ca + My*self.sa
      M2 = -Mx*self.sa + My*self.ca
      x = xu*self.ca + yu*self.sa
      y = -xu*self.sa + yu*self.ca
      strainU = -(M1/self.EI11*y - M2/self.EI22*x + Fz/self.EA)
      x = xl*self.ca + yl*self.sa
      y = -xl*self.sa + yl*self.ca
      strainL = -(M1/self.EI11*y - M2/self.EI22*x + Fz/self.EA)
      # number of cycles to failure
      NfU = (emax/(eta*strainU))**m
      NfL = (emax/(eta*strainL))**m
      damageU = np.log(N) - m*(np.log(emax) - np.log(eta) - np.log(np.abs(strainU)))
      damageL = np.log(N) - m*(np.log(emax) - np.log(eta) - np.log(np.abs(strainL)))
      return damageU, damageL
  \<close>
  \<^verbatim>\<open>NfU\<close> and \<^verbatim>\<open>NfL\<close> are computed and never read; they are left out.
\<close>

definition damage_at ::
  "principal_axes \<Rightarrow> real \<Rightarrow> real \<Rightarrow> real \<Rightarrow> real \<Rightarrow> real \<Rightarrow> real \<Rightarrow>
   real \<Rightarrow> real \<Rightarrow> real \<Rightarrow> real \<Rightarrow> real \<times> real" where
  "damage_at self Mx My xu yu xl yl emax eta m N =
     (let (Mx, My) = (My, Mx);
          Fz = 0;
          (xu, yu) = (yu, xu);
          (xl, yl) = (yl, xl);
          M1 = Mx * self_ca self + My * self_sa self;
          M2 = - Mx * self_sa self + My * self_ca self;
          x = xu * self_ca self + yu * self_sa self;
          y = - xu * self_sa self + yu * self_ca self;
          strainU = - (M1 / self_EI11 self * y - M2 / self_EI22 self * x + Fz / self_EA self);
          x = xl * self_ca self + yl * self_sa self;
          y = - xl * self_sa self + yl * self_ca self;
          strainL = - (M1 / self_EI11 self * y - M2 / self_EI22 self * x + Fz / self_EA self);
          damageU = ln N - m * (ln emax - ln eta - ln \<bar>strainU\<bar>);
          damageL = ln N - m * (ln emax - ln eta - ln \<bar>strainL\<bar>)
      in (damageU, damageL))"

definition damage ::
  "principal_axes list \<Rightarrow> real list \<Rightarrow> real list \<Rightarrow> real list \<Rightarrow> real list \<Rightarrow> real list \<Rightarrow> real list \<Rightarrow>
   real \<Rightarrow> real \<Rightarrow> real \<Rightarrow> real \<Rightarrow> real list \<times> real list" where
  "damage self Mx My xu yu xl yl emax eta m N =
     (let both = map (\<lambda>i. damage_at (self ! i) (Mx ! i) (My ! i)
                            (xu ! i) (yu ! i) (xl ! i) (yl ! i) emax eta m N) [0..<length xu]
      in (map fst both, map snd both))"

text \<open>
  The strain and damage part of \<^verbatim>\<open>RotorWithpBEAM.compute\<close> (lines 826 to 832 and 865 to
  880). The displacements, the mass, the moment of inertia and the frequencies are handed
  through from \<^verbatim>\<open>_pBEAM\<close> and are not modelled.
\<close>

record RotorWithpBEAM_inputs =
  xu_strain_spar :: "real list"
  xl_strain_spar :: "real list"
  yu_strain_spar :: "real list"
  yl_strain_spar :: "real list"
  xu_strain_te :: "real list"
  xl_strain_te :: "real list"
  yu_strain_te :: "real list"
  yl_strain_te :: "real list"
  Mx_damage :: "real list"
  My_damage :: "real list"
  strain_ult_spar :: real
  strain_ult_te :: real
  gamma_fatigue :: real
  m_damage :: real
  lifetime :: real
  beam_EA :: "real list"
  beam_EIxx :: "real list"
  beam_EIyy :: "real list"
  beam_EIxy :: "real list"
  beam_x_ec :: "real list"
  beam_y_ec :: "real list"

record RotorWithpBEAM_outputs =
  strainU_spar :: "real list"
  strainL_spar :: "real list"
  strainU_te :: "real list"
  strainL_te :: "real list"
  damageU_spar :: "real list"
  damageL_spar :: "real list"
  damageU_te :: "real list"
  damageL_te :: "real list"

definition RotorWithpBEAM_compute :: "RotorWithpBEAM_inputs \<Rightarrow> shearAndBending \<Rightarrow> RotorWithpBEAM_outputs" where
  "RotorWithpBEAM_compute inputs blade =
     (let N_damage = 365 * 24 * 3600 * lifetime inputs;
          self = principalCS (beam_EIyy inputs) (beam_EIxx inputs) (beam_y_ec inputs)
                   (beam_x_ec inputs) (beam_EA inputs) (beam_EIxy inputs);
          (sU_spar, sL_spar) = strain self blade (xu_strain_spar inputs) (yu_strain_spar inputs)
                                 (xl_strain_spar inputs) (yl_strain_spar inputs);
          (sU_te, sL_te) = strain self blade (xu_strain_te inputs) (yu_strain_te inputs)
                             (xl_strain_te inputs) (yl_strain_te inputs);
          (dU_spar, dL_spar) = damage self (Mx_damage inputs) (My_damage inputs)
                                 (xu_strain_spar inputs) (yu_strain_spar inputs)
                                 (xl_strain_spar inputs) (yl_strain_spar inputs)
                                 (strain_ult_spar inputs) (gamma_fatigue inputs) (m_damage inputs)
                                 N_damage;
          (dU_te, dL_te) = damage self (Mx_damage inputs) (My_damage inputs)
                             (xu_strain_te inputs) (yu_strain_te inputs)
                             (xl_strain_te inputs) (yl_strain_te inputs)
                             (strain_ult_te inputs) (gamma_fatigue inputs) (m_damage inputs)
                             N_damage
      in \<lparr>strainU_spar = sU_spar, strainL_spar = sL_spar, strainU_te = sU_te, strainL_te = sL_te,
          damageU_spar = dU_spar, damageL_spar = dL_spar, damageU_te = dU_te,
          damageL_te = dL_te\<rparr>)"

text \<open>All arrays of a call have one length, the number of stations (OpenMDAO declares each
  with \<^verbatim>\<open>np.zeros(NPTS)\<close>).\<close>

definition RotorWithpBEAM_shapes :: "nat \<Rightarrow> RotorWithpBEAM_inputs \<Rightarrow> shearAndBending \<Rightarrow> bool" where
  "RotorWithpBEAM_shapes nsec inputs blade =
     (length (xu_strain_spar inputs) = nsec \<and> length (xl_strain_spar inputs) = nsec \<and>
      length (yu_strain_spar inputs) = nsec \<and> length (yl_strain_spar inputs) = nsec \<and>
      length (xu_strain_te inputs) = nsec \<and> length (xl_strain_te inputs) = nsec \<and>
      length (yu_strain_te inputs) = nsec \<and> length (yl_strain_te inputs) = nsec \<and>
      length (Mx_damage inputs) = nsec \<and> length (My_damage inputs) = nsec \<and>
      length (beam_EA inputs) = nsec \<and> length (beam_EIxx inputs) = nsec \<and>
      length (beam_EIyy inputs) = nsec \<and> length (beam_EIxy inputs) = nsec \<and>
      length (beam_x_ec inputs) = nsec \<and> length (beam_y_ec inputs) = nsec \<and>
      length (sb_Vx blade) = nsec \<and> length (sb_Vy blade) = nsec \<and>
      length (sb_Fz blade) = nsec \<and> length (sb_Mx blade) = nsec \<and>
      length (sb_My blade) = nsec \<and> length (sb_Tz blade) = nsec)"

text \<open>The four recovery points of a station, with the input and output arrays of each.\<close>

datatype recovery_point = SparUpper | SparLower | TEUpper | TELower

fun point_x :: "RotorWithpBEAM_inputs \<Rightarrow> recovery_point \<Rightarrow> real list" where
  "point_x inputs SparUpper = xu_strain_spar inputs"
| "point_x inputs SparLower = xl_strain_spar inputs"
| "point_x inputs TEUpper = xu_strain_te inputs"
| "point_x inputs TELower = xl_strain_te inputs"

fun point_y :: "RotorWithpBEAM_inputs \<Rightarrow> recovery_point \<Rightarrow> real list" where
  "point_y inputs SparUpper = yu_strain_spar inputs"
| "point_y inputs SparLower = yl_strain_spar inputs"
| "point_y inputs TEUpper = yu_strain_te inputs"
| "point_y inputs TELower = yl_strain_te inputs"

fun point_strain_ult :: "RotorWithpBEAM_inputs \<Rightarrow> recovery_point \<Rightarrow> real" where
  "point_strain_ult inputs SparUpper = strain_ult_spar inputs"
| "point_strain_ult inputs SparLower = strain_ult_spar inputs"
| "point_strain_ult inputs TEUpper = strain_ult_te inputs"
| "point_strain_ult inputs TELower = strain_ult_te inputs"

fun point_strain :: "RotorWithpBEAM_outputs \<Rightarrow> recovery_point \<Rightarrow> real list" where
  "point_strain outputs SparUpper = strainU_spar outputs"
| "point_strain outputs SparLower = strainL_spar outputs"
| "point_strain outputs TEUpper = strainU_te outputs"
| "point_strain outputs TELower = strainL_te outputs"

fun point_damage :: "RotorWithpBEAM_outputs \<Rightarrow> recovery_point \<Rightarrow> real list" where
  "point_damage outputs SparUpper = damageU_spar outputs"
| "point_damage outputs SparLower = damageL_spar outputs"
| "point_damage outputs TEUpper = damageU_te outputs"
| "point_damage outputs TELower = damageL_te outputs"

text \<open>
  The claims' words. A pair in airfoil axes goes to the principal frame by the exchange of
  its components (the profile convention of the source) followed by the rotation by
  \<open>alpha\<close>; the strain at a point is the bending formula in that frame.
\<close>

definition to_principal :: "real \<Rightarrow> real \<times> real \<Rightarrow> real \<times> real" where
  "to_principal alpha v =
     (snd v * cos alpha + fst v * sin alpha, - snd v * sin alpha + fst v * cos alpha)"

definition recovered_strain :: "principal_axes \<Rightarrow> real \<times> real \<Rightarrow> real \<times> real \<Rightarrow> real \<Rightarrow> real" where
  "recovered_strain pa point moments Fz =
     (let x_p = fst (to_principal (local_alpha pa) point);
          y_p = snd (to_principal (local_alpha pa) point);
          M1 = fst (to_principal (local_alpha pa) moments);
          M2 = snd (to_principal (local_alpha pa) moments)
      in - (M1 / self_EI11 pa * y_p - M2 / self_EI22 pa * x_p + Fz / self_EA pa))"

text \<open>The principal axes that \<^verbatim>\<open>compute\<close> derives at station \<open>i\<close>.\<close>

definition station_axes :: "RotorWithpBEAM_inputs \<Rightarrow> nat \<Rightarrow> principal_axes" where
  "station_axes inputs i =
     principalCS_at (beam_EIyy inputs ! i) (beam_EIxx inputs ! i) (beam_y_ec inputs ! i)
       (beam_x_ec inputs ! i) (beam_EA inputs ! i) (beam_EIxy inputs ! i)"

text \<open>
  The axes the claims speak of: the lines of \<^verbatim>\<open>principalCS\<close> with the exchange that its
  comment announces (\<^verbatim>\<open>rename (with swap of x, y for profile c.s.)\<close>) carried out, both
  names of a pair being read before either is rebound, as the tuple assignments of
  \<^verbatim>\<open>strain\<close> and \<^verbatim>\<open>damage\<close> do. These are the stiffnesses of the section translated
  to the elastic center, the angle \<open>atan2(2 EIxy, EIyy - EIxx) / 2\<close> and the principal
  stiffnesses \<open>EIxx - EIxy tan alpha\<close> and \<open>EIyy + EIxy tan alpha\<close> of the specification.
\<close>

definition principalCS_with_swap :: "real \<Rightarrow> real \<Rightarrow> real \<Rightarrow> real \<Rightarrow> real \<Rightarrow> real \<Rightarrow> principal_axes" where
  "principalCS_with_swap EIyy EIxx y_ec x_ec EA EIxy =
     (let (EIxx, EIyy) = (EIyy, EIxx);
          (x_ec, y_ec) = (y_ec, x_ec);
          EIxx = EIxx - y_ec\<^sup>2 * EA;
          EIyy = EIyy - x_ec\<^sup>2 * EA;
          EIxy = EIxy - x_ec * y_ec * EA;
          alpha = (1 / 2) * arctan2 (2 * EIxy) (EIyy - EIxx);
          EI11 = EIxx - EIxy * tan alpha;
          EI22 = EIyy + EIxy * tan alpha
      in \<lparr>self_EI11 = EI11, self_EI22 = EI22, self_EA = EA, self_ca = cos alpha,
          self_sa = sin alpha, local_alpha = alpha\<rparr>)"

definition section_axes :: "RotorWithpBEAM_inputs \<Rightarrow> nat \<Rightarrow> principal_axes" where
  "section_axes inputs i =
     principalCS_with_swap (beam_EIyy inputs ! i) (beam_EIxx inputs ! i) (beam_y_ec inputs ! i)
       (beam_x_ec inputs ! i) (beam_EA inputs ! i) (beam_EIxy inputs ! i)"

text \<open>The damage of the claim, from a strain.\<close>

definition log_utilization :: "real \<Rightarrow> real \<Rightarrow> real \<Rightarrow> real \<Rightarrow> real \<Rightarrow> real" where
  "log_utilization N m emax eta eps = ln N - m * (ln emax - ln eta - ln \<bar>eps\<bar>)"

text \<open>
  Modelled from the spec: the recomputation of the cross term in the rotated frame (the test
  of section 8 of the specification), which the source does not contain. For second moments
  \<open>EIxx\<close>, \<open>EIyy\<close> and product \<open>EIxy\<close>, the product in the frame rotated by
  \<open>alpha\<close>, in the convention under which \<open>EIxx - EIxy tan alpha\<close> is the rotated
  \<open>EIxx\<close>.
\<close>

definition rotated_EIxy :: "real \<Rightarrow> real \<Rightarrow> real \<Rightarrow> real \<Rightarrow> real" where
  "rotated_EIxy EIxx EIyy EIxy alpha =
     (EIxx - EIyy) / 2 * sin (2 * alpha) + EIxy * cos (2 * alpha)"

definition rotated_EIxx :: "real \<Rightarrow> real \<Rightarrow> real \<Rightarrow> real \<Rightarrow> real" where
  "rotated_EIxx EIxx EIyy EIxy alpha =
     EIxx * (cos alpha)\<^sup>2 + EIyy * (sin alpha)\<^sup>2 - 2 * EIxy * sin alpha * cos alpha"

text \<open>One station with \<open>EIxy = 0\<close>, hence \<open>alpha = 0\<close>, and a lifetime of 20 years.\<close>

definition strain_example :: RotorWithpBEAM_inputs where
  "strain_example =
     \<lparr>xu_strain_spar = [1], xl_strain_spar = [1], yu_strain_spar = [3], yl_strain_spar = [- 3],
      xu_strain_te = [2], xl_strain_te = [2], yu_strain_te = [1], yl_strain_te = [- 1],
      Mx_damage = [8], My_damage = [4],
      strain_ult_spar = 10, strain_ult_te = 10, gamma_fatigue = 1, m_damage = 2,
      lifetime = 20,
      beam_EA = [4], beam_EIxx = [3], beam_EIyy = [2], beam_EIxy = [0],
      beam_x_ec = [0], beam_y_ec = [0]\<rparr>"

definition blade_example :: shearAndBending where
  "blade_example = \<lparr>sb_Vx = [0], sb_Vy = [0], sb_Fz = [4], sb_Mx = [8], sb_My = [4], sb_Tz = [0]\<rparr>"

subsection \<open>BladeCurvature.compute\<close>









subsection \<open>ResizeCompositeSection.compute\<close>

text \<open>
  Two things the claims about this component depend on are made explicit here.

  \<^bold>\<open>Division by zero.\<close> \<^verbatim>\<open>chord\<close>, \<^verbatim>\<open>sparT\<close> and \<^verbatim>\<open>teT\<close> are numpy arrays and
  \<^verbatim>\<open>np.sum\<close> returns a numpy scalar, so a division by zero raises nothing: numpy warns and
  returns \<open>inf\<close> or \<open>NaN\<close>. A thickness is therefore a real or the marker
  \<open>NonFinite\<close>, which stands for \<open>inf\<close>, \<open>-inf\<close> or \<open>NaN\<close>. A product or a sum with
  a non-finite operand is non-finite in IEEE arithmetic, and so is a quotient with a
  non-finite dividend or a zero divisor. (A finite dividend over a non-finite divisor is
  a zero or \<open>NaN\<close> in IEEE arithmetic; the marker cannot tell, \<open>np_div\<close> keeps the
  marker there, and no conclusion below rests on the value of such a quotient.)

  \<^bold>\<open>Shared objects.\<close> The elements of \<^verbatim>\<open>upperCS_in\<close>, \<^verbatim>\<open>lowerCS_in\<close> and
  \<^verbatim>\<open>websCS_in\<close> are \<^verbatim>\<open>CompositeSection\<close> objects, and the method assigns to their
  attribute \<^verbatim>\<open>t\<close>. An object is an address; the store maps each address to the value
  of its attribute \<^verbatim>\<open>t\<close>, a list with one array of ply thicknesses per sector. The list
  comprehension builds new arrays, so the in-place products that follow touch arrays no other
  object holds: the attribute has value semantics, the object does not.
\<close>

datatype npfloat = Fin real | NonFinite

fun np_mul :: "npfloat \<Rightarrow> npfloat \<Rightarrow> npfloat" where
  "np_mul (Fin a) (Fin b) = Fin (a * b)"
| "np_mul _ _ = NonFinite"

fun np_add :: "npfloat \<Rightarrow> npfloat \<Rightarrow> npfloat" where
  "np_add (Fin a) (Fin b) = Fin (a + b)"
| "np_add _ _ = NonFinite"

fun np_div :: "npfloat \<Rightarrow> npfloat \<Rightarrow> npfloat" where
  "np_div (Fin a) (Fin b) = (if b = 0 then NonFinite else Fin (a / b))"
| "np_div _ _ = NonFinite"

text \<open>\<^verbatim>\<open>np.sum\<close> of an array; 0.0 for the empty array.\<close>

definition np_sum :: "npfloat list \<Rightarrow> npfloat" where
  "np_sum xs = foldl np_add (Fin 0) xs"

text \<open>
  \<^verbatim>\<open>chord / inputs['chord_ref']\<close>, with numpy's broadcasting of one-dimensional arrays:
  equal lengths, or one of the two of length 1; any other pair of shapes raises ValueError.
\<close>

definition np_divide :: "real list \<Rightarrow> real list \<Rightarrow> error + npfloat list" where
  "np_divide xs ys =
     (if length xs = length ys then Inr (map (\<lambda>(x, y). np_div (Fin x) (Fin y)) (zip xs ys))
      else if length ys = 1 then Inr (map (\<lambda>x. np_div (Fin x) (Fin (hd ys))) xs)
      else if length xs = 1 then Inr (map (\<lambda>y. np_div (Fin (hd xs)) (Fin y)) ys)
      else Inl ValueError)"

type_synonym store = "nat \<Rightarrow> npfloat list list"

record ResizeCompositeSection_inputs =
  rs_chord :: "real list"
  rs_sparT :: "real list"
  rs_teT :: "real list"
  rs_upperCS_in :: "nat list"
  rs_lowerCS_in :: "nat list"
  rs_websCS_in :: "nat list"
  rs_chord_ref :: "real list"
  rs_sector_idx_strain_spar :: "nat list"
  rs_sector_idx_strain_te :: "nat list"

record ResizeCompositeSection_outputs =
  rs_upperCS :: "nat list"
  rs_lowerCS :: "nat list"
  rs_websCS :: "nat list"

text \<open>A loop over a list that threads the store and stops at the first exception.\<close>

fun foldE :: "('s \<Rightarrow> 'a \<Rightarrow> error + 's) \<Rightarrow> 's \<Rightarrow> 'a list \<Rightarrow> error + 's" where
  "foldE f s [] = Inr s"
| "foldE f s (x # xs) = bindE (f s x) (\<lambda>s'. foldE f s' xs)"

text \<open>\<^verbatim>\<open>[m*factor[i] for m in cs.t]\<close>: \<^verbatim>\<open>factor[i]\<close> is read once per sector.\<close>

definition scale_t :: "npfloat list \<Rightarrow> nat \<Rightarrow> npfloat list list \<Rightarrow> error + npfloat list list" where
  "scale_t factor i t =
     mapE (\<lambda>m. bindE (get factor i) (\<lambda>f. Inr (map (\<lambda>x. np_mul x f) m))) t"

text \<open>
  \<^verbatim>\<open>cs.t[idx] *= target[i]/tsum\<close> on the object \<open>obj\<close>: the array is read (IndexError
  when the sector is missing), then the quotient is formed, then the product is stored.
\<close>

definition imul_t :: "store \<Rightarrow> nat \<Rightarrow> nat \<Rightarrow> real list \<Rightarrow> nat \<Rightarrow> npfloat \<Rightarrow> error + store" where
  "imul_t h obj idx target i tsum =
     bindE (get (h obj) idx) (\<lambda>arr.
     bindE (get target i) (\<lambda>s.
       Inr (h(obj := (h obj)[idx := map (\<lambda>x. np_mul x (np_div (Fin s) tsum)) arr]))))"

text \<open>
  The body of the loop at station \<open>i\<close>:
  \<^verbatim>\<open>
  upperCS[i].t = [m*factor[i] for m in upperCS[i].t]
  lowerCS[i].t = [m*factor[i] for m in lowerCS[i].t]
  websCS[i].t  = [m*factor[i] for m in websCS[i].t]
  idx_spar = strain_idx_spar[i]
  idx_te = strain_idx_te[i]
  # upper and lower have same thickness for this design
  tspar = np.sum(upperCS[i].t[idx_spar])
  tte = np.sum(upperCS[i].t[idx_te])
  upperCS[i].t[idx_spar] *= sparT[i]/tspar
  lowerCS[i].t[idx_spar] *= sparT[i]/tspar
  upperCS[i].t[idx_te] *= teT[i]/tte
  lowerCS[i].t[idx_te] *= teT[i]/tte
  \<close>
\<close>

definition resize_station :: "ResizeCompositeSection_inputs \<Rightarrow> npfloat list \<Rightarrow> store \<Rightarrow> nat \<Rightarrow> error + store" where
  "resize_station inputs factor h i =
     bindE (get (rs_upperCS_in inputs) i) (\<lambda>u.
     bindE (scale_t factor i (h u)) (\<lambda>tu. let h = h(u := tu) in
     bindE (get (rs_lowerCS_in inputs) i) (\<lambda>l.
     bindE (scale_t factor i (h l)) (\<lambda>tl. let h = h(l := tl) in
     bindE (get (rs_websCS_in inputs) i) (\<lambda>w.
     bindE (scale_t factor i (h w)) (\<lambda>tw. let h = h(w := tw) in
     bindE (get (rs_sector_idx_strain_spar inputs) i) (\<lambda>idx_spar.
     bindE (get (rs_sector_idx_strain_te inputs) i) (\<lambda>idx_te.
     bindE (get (h u) idx_spar) (\<lambda>arr_spar. let tspar = np_sum arr_spar in
     bindE (get (h u) idx_te) (\<lambda>arr_te. let tte = np_sum arr_te in
     bindE (imul_t h u idx_spar (rs_sparT inputs) i tspar) (\<lambda>h.
     bindE (imul_t h l idx_spar (rs_sparT inputs) i tspar) (\<lambda>h.
     bindE (imul_t h u idx_te (rs_teT inputs) i tte) (\<lambda>h.
     imul_t h l idx_te (rs_teT inputs) i tte)))))))))))))"

text \<open>
  \<^verbatim>\<open>
  factor = chord / inputs['chord_ref']
  for i in range(chord.size):
      ...
  discrete_outputs['upperCS'] = upperCS
  discrete_outputs['lowerCS'] = lowerCS
  discrete_outputs['websCS'] = websCS
  \<close>
  The outputs are the input lists themselves: the same objects, whose attribute the loop has
  assigned. The function returns the store after the call with them.
\<close>

definition ResizeCompositeSection_compute ::
  "ResizeCompositeSection_inputs \<Rightarrow> store \<Rightarrow> error + store \<times> ResizeCompositeSection_outputs" where
  "ResizeCompositeSection_compute inputs h =
     bindE (np_divide (rs_chord inputs) (rs_chord_ref inputs)) (\<lambda>factor.
     bindE (foldE (resize_station inputs factor) h [0..<length (rs_chord inputs)]) (\<lambda>h'.
       Inr (h', \<lparr>rs_upperCS = rs_upperCS_in inputs, rs_lowerCS = rs_lowerCS_in inputs,
                 rs_websCS = rs_websCS_in inputs\<rparr>)))"

text \<open>
  One station. The upper and lower surface have a leading-edge panel, a spar cap and a
  trailing-edge panel (sectors 0, 1, 2) of one ply of thickness 1 each; one web of thickness 1.
  The chord is twice the reference chord; the targets are 3 for the spar cap and 5 for the
  trailing-edge panel. Objects 0, 1 and 2 are the upper surface, the lower surface and the web.
\<close>

definition resize_inputs_example :: ResizeCompositeSection_inputs where
  "resize_inputs_example =
     \<lparr>rs_chord = [2], rs_sparT = [3], rs_teT = [5],
      rs_upperCS_in = [0], rs_lowerCS_in = [1], rs_websCS_in = [2],
      rs_chord_ref = [1], rs_sector_idx_strain_spar = [1], rs_sector_idx_strain_te = [2]\<rparr>"

definition resize_outputs_example :: ResizeCompositeSection_outputs where
  "resize_outputs_example = \<lparr>rs_upperCS = [0], rs_lowerCS = [1], rs_websCS = [2]\<rparr>"

definition store_before :: store where
  "store_before =
     (\<lambda>obj. [])(0 := [[Fin 1], [Fin 1], [Fin 1]], 1 := [[Fin 1], [Fin 1], [Fin 1]],
                 2 := [[Fin 1]])"

definition store_after_once :: store where
  "store_after_once =
     (\<lambda>obj. [])(0 := [[Fin 2], [Fin 3], [Fin 5]], 1 := [[Fin 2], [Fin 3], [Fin 5]],
                 2 := [[Fin 2]])"

definition store_after_twice :: store where
  "store_after_twice =
     (\<lambda>obj. [])(0 := [[Fin 4], [Fin 3], [Fin 5]], 1 := [[Fin 4], [Fin 3], [Fin 5]],
                 2 := [[Fin 4]])"

text \<open>The same station with a spar cap of thickness 0, and the store the call leaves.\<close>

definition store_zero_spar :: store where
  "store_zero_spar =
     (\<lambda>obj. [])(0 := [[Fin 1], [Fin 0], [Fin 1]], 1 := [[Fin 1], [Fin 0], [Fin 1]],
                 2 := [[Fin 1]])"

definition store_zero_spar_after :: store where
  "store_zero_spar_after =
     (\<lambda>obj. [])(0 := [[Fin 2], [NonFinite], [Fin 5]], 1 := [[Fin 2], [NonFinite], [Fin 5]],
                 2 := [[Fin 2]])"

text \<open>
  What a station's call does to a surface, written as a function of the attribute: every ply
  times the factor, then the spar sector times the spar ratio, then the trailing-edge sector
  times the trailing-edge ratio. The base thickness of a sector is the sum the code divides
  by: the sum of the plies of the upper surface's sector after the scaling by
  \<open>chord / chord_ref\<close>.
\<close>

definition resized_surface ::
  "npfloat \<Rightarrow> npfloat \<Rightarrow> npfloat \<Rightarrow> nat \<Rightarrow> nat \<Rightarrow> npfloat list list \<Rightarrow> npfloat list list" where
  "resized_surface f r_spar r_te idx_spar idx_te t =
     (let t1 = map (map (\<lambda>x. np_mul x f)) t;
          t2 = t1[idx_spar := map (\<lambda>x. np_mul x r_spar) (t1 ! idx_spar)]
      in t2[idx_te := map (\<lambda>x. np_mul x r_te) (t2 ! idx_te)])"

definition base_thickness :: "ResizeCompositeSection_inputs \<Rightarrow> store \<Rightarrow> nat \<Rightarrow> nat \<Rightarrow> npfloat" where
  "base_thickness inputs h i idx =
     np_sum (map (\<lambda>x. np_mul x (np_div (Fin (rs_chord inputs ! i)) (Fin (rs_chord_ref inputs ! i))))
               (h (rs_upperCS_in inputs ! i) ! idx))"

definition station_factor :: "ResizeCompositeSection_inputs \<Rightarrow> nat \<Rightarrow> npfloat" where
  "station_factor inputs i = np_div (Fin (rs_chord inputs ! i)) (Fin (rs_chord_ref inputs ! i))"

definition spar_ratio :: "ResizeCompositeSection_inputs \<Rightarrow> store \<Rightarrow> nat \<Rightarrow> npfloat" where
  "spar_ratio inputs h i =
     np_div (Fin (rs_sparT inputs ! i))
       (base_thickness inputs h i (rs_sector_idx_strain_spar inputs ! i))"

definition te_ratio :: "ResizeCompositeSection_inputs \<Rightarrow> store \<Rightarrow> nat \<Rightarrow> npfloat" where
  "te_ratio inputs h i =
     np_div (Fin (rs_teT inputs ! i))
       (base_thickness inputs h i (rs_sector_idx_strain_te inputs ! i))"

definition resized_at ::
  "ResizeCompositeSection_inputs \<Rightarrow> store \<Rightarrow> nat \<Rightarrow> npfloat list list \<Rightarrow> npfloat list list" where
  "resized_at inputs h i t =
     resized_surface (station_factor inputs i) (spar_ratio inputs h i) (te_ratio inputs h i)
       (rs_sector_idx_strain_spar inputs ! i) (rs_sector_idx_strain_te inputs ! i) t"

definition resize_shapes :: "nat \<Rightarrow> ResizeCompositeSection_inputs \<Rightarrow> bool" where
  "resize_shapes n inputs =
     (length (rs_chord inputs) = n \<and> length (rs_chord_ref inputs) = n \<and>
      length (rs_sparT inputs) = n \<and> length (rs_teT inputs) = n \<and>
      length (rs_upperCS_in inputs) = n \<and> length (rs_lowerCS_in inputs) = n \<and>
      length (rs_websCS_in inputs) = n \<and>
      length (rs_sector_idx_strain_spar inputs) = n \<and>
      length (rs_sector_idx_strain_te inputs) = n)"

definition sectors_present :: "ResizeCompositeSection_inputs \<Rightarrow> store \<Rightarrow> nat \<Rightarrow> bool" where
  "sectors_present inputs h i =
     (rs_sector_idx_strain_spar inputs ! i < length (h (rs_upperCS_in inputs ! i)) \<and>
      rs_sector_idx_strain_spar inputs ! i < length (h (rs_lowerCS_in inputs ! i)) \<and>
      rs_sector_idx_strain_te inputs ! i < length (h (rs_upperCS_in inputs ! i)) \<and>
      rs_sector_idx_strain_te inputs ! i < length (h (rs_lowerCS_in inputs ! i)))"

subsection \<open>Double precision\<close>

text \<open>
  The margins below are compared with decimal constants, so their arithmetic is modelled in
  IEEE 754 binary64 with rounding to nearest, ties to even. A finite double is the real it
  denotes. For \<open>x \<noteq> 0\<close> with \<open>2\<^sup>k \<le> |x| < 2\<^sup>k\<^sup>+\<^sup>1\<close> the spacing of the doubles
  around \<open>x\<close> is \<open>2\<^sup>q\<close> with \<open>q = max k (-1022) - 52\<close> (53 significant bits, subnormal
  below \<open>2\<^sup>-\<^sup>1\<^sup>0\<^sup>2\<^sup>2\<close>); \<open>x\<close> rounds to the nearest multiple of \<open>2\<^sup>q\<close>, and to an
  infinity when that multiple reaches \<open>2\<^sup>1\<^sup>0\<^sup>2\<^sup>4\<close>. The sign of a zero is not kept, and
  the infinities and NaN are the marker \<open>NonFinite\<close>, as in the resizer.
\<close>

definition round_half_even :: "real \<Rightarrow> int" where
  "round_half_even y =
     (let f = \<lfloor>y\<rfloor>
      in if y - of_int f < 1 / 2 then f
         else if 1 / 2 < y - of_int f then f + 1
         else if even f then f else f + 1)"

definition quantum :: "real \<Rightarrow> int" where
  "quantum x = max \<lfloor>log 2 \<bar>x\<bar>\<rfloor> (- 1022) - 52"

definition to_double :: "real \<Rightarrow> npfloat" where
  "to_double x =
     (if x = 0 then Fin 0
      else let q = quantum x;
               r = of_int (round_half_even (x / 2 powi q)) * 2 powi q
           in if 2 ^ 1024 \<le> \<bar>r\<bar> then NonFinite else Fin r)"

text \<open>The product and the quotient of two doubles: the exact result, rounded; a division by
  zero is non-finite (numpy warns and returns \<open>inf\<close> or \<open>NaN\<close>).\<close>

fun d_mul :: "npfloat \<Rightarrow> npfloat \<Rightarrow> npfloat" where
  "d_mul (Fin a) (Fin b) = to_double (a * b)"
| "d_mul _ _ = NonFinite"

fun d_div :: "npfloat \<Rightarrow> npfloat \<Rightarrow> npfloat" where
  "d_div (Fin a) (Fin b) = (if b = 0 then NonFinite else to_double (a / b))"
| "d_div _ _ = NonFinite"

subsection \<open>ConstraintsStructures.compute\<close>

text \<open>
  The forward part of \<^verbatim>\<open>ConstraintsStructures.compute\<close> (lines 1976 to 2008); the
  Jacobian bookkeeping that follows it writes to \<^verbatim>\<open>self.J\<close> only.
  \<^verbatim>\<open>
  omega           = inputs['Omega'] / 60.0 #Hz
  gamma_freq      = inputs['gamma_freq']
  gamma_f         = inputs['gamma_f']
  gamma_strain    = gamma_f * inputs['gamma_m']
  ...
  outputs['Pn_margin'] = (nBlades*omega*gamma_freq) / inputs['freq']
  outputs['P1_margin'] = (        omega*gamma_freq) / inputs['freq']
  ...
  outputs['rotor_strain_sparU'] = inputs['strainU_spar'] * gamma_strain / strain_ult_spar
  ...
  outputs['rotor_buckling_sparU'] = inputs['strainU_spar'] * gamma_f / eps_crit_spar
  ...
  outputs['rotor_damage_sparU'] = inputs['damageU_spar']
  \<close>
  The inputs are finite doubles; every product and quotient is rounded, in the order in
  which the source forms them: \<^verbatim>\<open>gamma_strain\<close> first, then the product with the strain,
  then the quotient. The blade count is a small integer, exact as a double.
\<close>

record ConstraintsStructures_inputs =
  cs_nBlades :: int
  cs_freq :: "real list"
  cs_freq_curvefem :: "real list"
  cs_Omega :: real
  cs_strainU_spar :: "real list"
  cs_strainL_spar :: "real list"
  cs_strainU_te :: "real list"
  cs_strainL_te :: "real list"
  cs_strain_ult_spar :: real
  cs_strain_ult_te :: real
  cs_eps_crit_spar :: "real list"
  cs_eps_crit_te :: "real list"
  cs_damageU_spar :: "real list"
  cs_damageL_spar :: "real list"
  cs_damageU_te :: "real list"
  cs_damageL_te :: "real list"
  cs_gamma_f :: real
  cs_gamma_m :: real
  cs_gamma_freq :: real

record ConstraintsStructures_outputs =
  Pn_margin :: "npfloat list"
  P1_margin :: "npfloat list"
  Pn_margin_cfem :: "npfloat list"
  P1_margin_cfem :: "npfloat list"
  rotor_strain_sparU :: "npfloat list"
  rotor_strain_sparL :: "npfloat list"
  rotor_strain_teU :: "npfloat list"
  rotor_strain_teL :: "npfloat list"
  rotor_buckling_sparU :: "npfloat list"
  rotor_buckling_sparL :: "npfloat list"
  rotor_buckling_teU :: "npfloat list"
  rotor_buckling_teL :: "npfloat list"
  rotor_damage_sparU :: "real list"
  rotor_damage_sparL :: "real list"
  rotor_damage_teU :: "real list"
  rotor_damage_teL :: "real list"

definition ConstraintsStructures_compute ::
  "ConstraintsStructures_inputs \<Rightarrow> ConstraintsStructures_outputs" where
  "ConstraintsStructures_compute inputs =
     (let omega = d_div (Fin (cs_Omega inputs)) (Fin 60);
          gamma_freq = Fin (cs_gamma_freq inputs);
          gamma_f = Fin (cs_gamma_f inputs);
          gamma_strain = d_mul gamma_f (Fin (cs_gamma_m inputs));
          strain_ult_spar = Fin (cs_strain_ult_spar inputs);
          strain_ult_te = Fin (cs_strain_ult_te inputs);
          eps_crit_spar = cs_eps_crit_spar inputs;
          eps_crit_te = cs_eps_crit_te inputs;
          nBlades = Fin (real_of_int (cs_nBlades inputs))
      in \<lparr>Pn_margin = map (\<lambda>f. d_div (d_mul (d_mul nBlades omega) gamma_freq) (Fin f)) (cs_freq inputs),
          P1_margin = map (\<lambda>f. d_div (d_mul omega gamma_freq) (Fin f)) (cs_freq inputs),
          Pn_margin_cfem = map (\<lambda>f. d_div (d_mul (d_mul nBlades omega) gamma_freq) (Fin f))
                             (cs_freq_curvefem inputs),
          P1_margin_cfem = map (\<lambda>f. d_div (d_mul omega gamma_freq) (Fin f)) (cs_freq_curvefem inputs),
          rotor_strain_sparU = map (\<lambda>e. d_div (d_mul (Fin e) gamma_strain) strain_ult_spar)
                                 (cs_strainU_spar inputs),
          rotor_strain_sparL = map (\<lambda>e. d_div (d_mul (Fin e) gamma_strain) strain_ult_spar)
                                 (cs_strainL_spar inputs),
          rotor_strain_teU = map (\<lambda>e. d_div (d_mul (Fin e) gamma_strain) strain_ult_te)
                               (cs_strainU_te inputs),
          rotor_strain_teL = map (\<lambda>e. d_div (d_mul (Fin e) gamma_strain) strain_ult_te)
                               (cs_strainL_te inputs),
          rotor_buckling_sparU = map (\<lambda>(e, c). d_div (d_mul (Fin e) gamma_f) (Fin c))
                                   (zip (cs_strainU_spar inputs) eps_crit_spar),
          rotor_buckling_sparL = map (\<lambda>(e, c). d_div (d_mul (Fin e) gamma_f) (Fin c))
                                   (zip (cs_strainL_spar inputs) eps_crit_spar),
          rotor_buckling_teU = map (\<lambda>(e, c). d_div (d_mul (Fin e) gamma_f) (Fin c))
                                 (zip (cs_strainU_te inputs) eps_crit_te),
          rotor_buckling_teL = map (\<lambda>(e, c). d_div (d_mul (Fin e) gamma_f) (Fin c))
                                 (zip (cs_strainL_te inputs) eps_crit_te),
          rotor_damage_sparU = cs_damageU_spar inputs,
          rotor_damage_sparL = cs_damageL_spar inputs,
          rotor_damage_teU = cs_damageU_te inputs,
          rotor_damage_teL = cs_damageL_te inputs\<rparr>)"

text \<open>
  The worked example: one station; the strain, the two safety factors and the ultimate strain
  are the doubles that the decimal constants 0.005, 1.35, 1.1 and 0.01 denote;
  \<open>double_0_7425\<close> is the double that 0.7425 denotes, and \<open>double_0_7425_next\<close> the
  next double above it (printed as 0.7425000000000002).
\<close>

definition double_0_005 :: real where "double_0_005 = 5764607523034235 / 2 ^ 60"
definition double_1_35 :: real where "double_1_35 = 6079859496950170 / 2 ^ 52"
definition double_1_1 :: real where "double_1_1 = 4953959590107546 / 2 ^ 52"
definition double_0_01 :: real where "double_0_01 = 5764607523034235 / 2 ^ 59"
definition double_0_7425 :: real where "double_0_7425 = 6687845446645187 / 2 ^ 53"
definition double_0_7425_next :: real where "double_0_7425_next = 6687845446645188 / 2 ^ 53"

definition margins_example :: ConstraintsStructures_inputs where
  "margins_example =
     \<lparr>cs_nBlades = 3, cs_freq = [1], cs_freq_curvefem = [1], cs_Omega = 12,
      cs_strainU_spar = [double_0_005], cs_strainL_spar = [double_0_005],
      cs_strainU_te = [double_0_005], cs_strainL_te = [double_0_005],
      cs_strain_ult_spar = double_0_01, cs_strain_ult_te = double_0_01,
      cs_eps_crit_spar = [1], cs_eps_crit_te = [1],
      cs_damageU_spar = [1 / 8], cs_damageL_spar = [1 / 4],
      cs_damageU_te = [3 / 8], cs_damageL_te = [1 / 2],
      cs_gamma_f = double_1_35, cs_gamma_m = double_1_1, cs_gamma_freq = double_1_1\<rparr>"

text \<open>
  The strain margin as the source forms it from the values of one station: the product of
  the two safety factors first, then the product with the strain, then the quotient by the
  ultimate strain, each rounded.
\<close>

definition strain_margin :: "real \<Rightarrow> real \<Rightarrow> real \<Rightarrow> real \<Rightarrow> npfloat" where
  "strain_margin e gamma_f gamma_m strain_ult =
     d_div (d_mul (Fin e) (d_mul (Fin gamma_f) (Fin gamma_m))) (Fin strain_ult)"

section \<open>Theorems\<close>

subsection \<open>Extreme loads\<close>

text \<open>
  C10. For every thrust pair \<open>T\<close>, torque pair \<open>Q\<close> and blade count \<open>n\<close>, the
  extreme-load combiner returns \<open>Q_extreme = 0\<close> whatever \<open>Q\<close> is, and, for a
  nonzero blade count, \<open>T_extreme = (T[0] + T[1] (n - 1)) / n\<close>.
\<close>

theorem ExtremeLoads_thrust_and_zero_torque:
  "Q_extreme (ExtremeLoads_compute T Q n) = 0 \<and>
   (n \<noteq> 0 \<longrightarrow>
      T_extreme (ExtremeLoads_compute T Q n)
        = (fst T + snd T * (real_of_int n - 1)) / real_of_int n)"
  by (simp add: ExtremeLoads_compute_def Let_def)

theorem ExtremeLoads_thrust_and_zero_torque_witness:
  "(3::int) \<noteq> 0 \<and> Q_extreme (ExtremeLoads_compute (900, 300) (50, 70) 3) = 0 \<and>
   T_extreme (ExtremeLoads_compute (900, 300) (50, 70) 3) = 500"
  using ExtremeLoads_thrust_and_zero_torque [of "(900, 300)" "(50, 70)" 3] by simp

subsection \<open>Tip deflection\<close>

text \<open>
  C5. The tip deflection is the dynamic amplification factor times the yaw-frame
  x-component of the airfoil-frame tip displacement taken through the chain airfoil,
  blade (twist plus pitch), azimuth (total cone), hub (azimuth 180 degrees), yaw (tilt);
  no output depends on the azimuth input; the tip x-position is the (sign-adjusted)
  yaw-frame x-position of the undeflected tip plus \<open>gamma_m\<close> times that deflection.
\<close>

theorem TipDeflection_chain_at_fixed_azimuth:
  "TipDeflection_compute cs (inputs\<lparr>td_azimuth := a\<rparr>) = TipDeflection_compute cs inputs \<and>
   tip_deflection (TipDeflection_compute cs inputs)
     = td_dynamicFactor inputs
       * dv_x (airfoil_to_yaw_at_180 cs inputs
                 (DirectionVector (td_dx inputs) (td_dy inputs) (td_dz inputs))) \<and>
   fst (tip_position (TipDeflection_compute cs inputs))
     = (if td_downwind inputs then - 1 else 1)
       * dv_x (blade_to_yaw_at_180 cs inputs
                 (DirectionVector (td_precurveTip inputs) (td_presweepTip inputs) (td_Rtip inputs)))
       + td_gamma_m inputs * tip_deflection (TipDeflection_compute cs inputs)"
  by (simp add: TipDeflection_compute_def Let_def airfoil_to_yaw_at_180_def
      blade_to_yaw_at_180_def)

subsection \<open>Panel buckling\<close>

lemma mapE_Inr_iff:
  "mapE f xs = Inr ys \<longleftrightarrow> length ys = length xs \<and> (\<forall>j<length xs. f (xs ! j) = Inr (ys ! j))"
proof (induction xs arbitrary: ys)
  case Nil
  show ?case by auto
next
  case (Cons x xs)
  show ?case
  proof (cases ys)
    case Nil
    then show ?thesis by (simp split: sum.splits)
  next
    case (Cons y zs)
    with Cons.IH [of zs] show ?thesis
      by (auto simp: All_less_Suc2 split: sum.splits)
  qed
qed


lemma mapE_all_Inr: "(\<And>x. x \<in> set xs \<Longrightarrow> f x = Inr (g x)) \<Longrightarrow> mapE f xs = Inr (map g xs)"
  by (induction xs) simp_all

lemma panelBucklingStrain_at_Inr:
  assumes "sector_idx + 1 < length (loc cs)"
  shows "panelBucklingStrain_at chord_i cs sector_idx = Inr (sector_critical_strain chord_i cs sector_idx)"
  using assms
  by (simp add: panelBucklingStrain_at_def get_def bindE_def Let_def sector_critical_strain_def
      critical_strain_def sector_length_def divide_divide_eq_left)

lemma panelBucklingStrain_Inr:
  assumes "length chord \<le> length CS_list" "length chord \<le> length idxs"
    and "\<And>j. j < length chord \<Longrightarrow> idxs ! j + 1 < length (loc (CS_list ! j))"
  shows "panelBucklingStrain chord CS_list idxs
           = Inr (map (\<lambda>i. sector_critical_strain (chord ! i) (CS_list ! i) (idxs ! i)) [0..<length chord])"
  unfolding panelBucklingStrain_def
proof (rule mapE_all_Inr)
  fix i assume "i \<in> set [0..<length chord]"
  then have i: "i < length chord" by simp
  with assms(1,2) have "get CS_list i = Inr (CS_list ! i)" "get idxs i = Inr (idxs ! i)"
    by (simp_all add: get_def)
  then show "bindE (get CS_list i) (\<lambda>cs. bindE (get idxs i) (\<lambda>sector_idx.
                  panelBucklingStrain_at (chord ! i) cs sector_idx))
             = Inr (sector_critical_strain (chord ! i) (CS_list ! i) (idxs ! i))"
    using assms(3) [OF i] by (simp add: bindE_def panelBucklingStrain_at_Inr)
qed

lemma critical_strain_negative:
  assumes "L \<noteq> 0" "0 < t" "0 < E" "0 < D1" "0 < D2" "D12\<^sup>2 < D1 * D2" "0 < D66"
  shows "critical_strain L D1 D2 (D12 + 2 * D66) E t < 0"
proof -
  have "\<bar>D12\<bar> < sqrt (D1 * D2)"
    using assms(6) by (metis real_sqrt_abs real_sqrt_less_iff)
  then have S: "0 < sqrt (D1 * D2) + (D12 + 2 * D66)" using assms(7) by linarith
  have "0 < (pi / L)\<^sup>2" using assms(1) by simp
  with S have "0 < 2 * (pi / L)\<^sup>2 * (sqrt (D1 * D2) + (D12 + 2 * D66))" by simp
  moreover have "0 < t * E" using assms(2,3) by simp
  ultimately show ?thesis
    unfolding critical_strain_def by (simp add: divide_neg_pos)
qed

lemma critical_strain_scale:
  "c \<noteq> 0 \<Longrightarrow> critical_strain (c * L) D1 D2 D3 E t = critical_strain L D1 D2 D3 E t / c\<^sup>2"
  by (simp add: critical_strain_def power_divide power_mult_distrib field_simps)

text \<open>
  C4. Where the sector indices are in range, \<^verbatim>\<open>panelBucklingStrain\<close> returns; at every
  station with a nonzero sector length \<open>L\<close> (the chord times the difference of the
  sector's bounds), thickness \<open>t\<close> and modulus \<open>E\<close> its value is
  \<open>- (2 (pi / L)\<^sup>2 (sqrt (D1 D2) + D3)) / (t E)\<close>, and multiplying the chord of the
  station (hence \<open>L\<close>) by \<open>c\<close> divides the value by \<open>c\<^sup>2\<close>; the value is
  negative for a positive thickness and modulus and a positive definite \<open>D\<close>.
\<close>

theorem panelBucklingStrain_formula_sign_scaling:
  assumes "length chord \<le> length CS_list" and "length chord \<le> length idxs"
    and "\<forall>j<length chord. idxs ! j + 1 < length (loc (CS_list ! j))"
  shows "\<exists>eps. panelBucklingStrain chord CS_list idxs = Inr eps \<and> length eps = length chord \<and>
           (\<forall>i<length chord.
              (sector_length (chord ! i) (CS_list ! i) (idxs ! i) \<noteq> 0 \<and>
               compositeMatrices_totalHeight (CS_list ! i) (idxs ! i) \<noteq> 0 \<and>
               effectiveEAxial (CS_list ! i) (idxs ! i) \<noteq> 0 \<longrightarrow>
                 eps ! i = sector_critical_strain (chord ! i) (CS_list ! i) (idxs ! i) \<and>
                 (\<forall>c. c \<noteq> 0 \<longrightarrow>
                    (\<exists>eps'. panelBucklingStrain (chord[i := c * chord ! i]) CS_list idxs = Inr eps' \<and>
                            eps' ! i = eps ! i / c\<^sup>2))) \<and>
              (sector_length (chord ! i) (CS_list ! i) (idxs ! i) \<noteq> 0 \<and>
               0 < compositeMatrices_totalHeight (CS_list ! i) (idxs ! i) \<and>
               0 < effectiveEAxial (CS_list ! i) (idxs ! i) \<and>
               positive_definite_D (CS_list ! i) (idxs ! i) \<longrightarrow> eps ! i < 0))"
proof -
  let ?g = "\<lambda>ch i. sector_critical_strain (ch ! i) (CS_list ! i) (idxs ! i)"
  let ?eps = "map (?g chord) [0..<length chord]"
  have run: "panelBucklingStrain chord CS_list idxs = Inr ?eps"
    using assms by (intro panelBucklingStrain_Inr) simp_all
  have neg: "?eps ! i < 0"
    if "i < length chord" "sector_length (chord ! i) (CS_list ! i) (idxs ! i) \<noteq> 0"
      "0 < compositeMatrices_totalHeight (CS_list ! i) (idxs ! i)"
      "0 < effectiveEAxial (CS_list ! i) (idxs ! i)"
      "positive_definite_D (CS_list ! i) (idxs ! i)" for i
    using that
    by (simp add: sector_critical_strain_def positive_definite_D_def critical_strain_negative)
  have scale: "\<exists>eps'. panelBucklingStrain (chord[i := c * chord ! i]) CS_list idxs = Inr eps' \<and>
                      eps' ! i = ?eps ! i / c\<^sup>2" if "i < length chord" "c \<noteq> 0" for i c
  proof -
    let ?ch = "chord[i := c * chord ! i]"
    have "panelBucklingStrain ?ch CS_list idxs = Inr (map (?g ?ch) [0..<length chord])"
      using assms panelBucklingStrain_Inr [of ?ch CS_list idxs] by simp
    moreover have "map (?g ?ch) [0..<length chord] ! i = ?eps ! i / c\<^sup>2"
      using that
      by (simp add: sector_critical_strain_def sector_length_def critical_strain_scale
          mult.assoc)
    ultimately show ?thesis by blast
  qed
  have "length ?eps = length chord" by simp
  moreover have "\<forall>i<length chord.
              (sector_length (chord ! i) (CS_list ! i) (idxs ! i) \<noteq> 0 \<and>
               compositeMatrices_totalHeight (CS_list ! i) (idxs ! i) \<noteq> 0 \<and>
               effectiveEAxial (CS_list ! i) (idxs ! i) \<noteq> 0 \<longrightarrow>
                 ?eps ! i = sector_critical_strain (chord ! i) (CS_list ! i) (idxs ! i) \<and>
                 (\<forall>c. c \<noteq> 0 \<longrightarrow>
                    (\<exists>eps'. panelBucklingStrain (chord[i := c * chord ! i]) CS_list idxs = Inr eps' \<and>
                            eps' ! i = ?eps ! i / c\<^sup>2))) \<and>
              (sector_length (chord ! i) (CS_list ! i) (idxs ! i) \<noteq> 0 \<and>
               0 < compositeMatrices_totalHeight (CS_list ! i) (idxs ! i) \<and>
               0 < effectiveEAxial (CS_list ! i) (idxs ! i) \<and>
               positive_definite_D (CS_list ! i) (idxs ! i) \<longrightarrow> ?eps ! i < 0)"
    using neg scale by simp
  ultimately show ?thesis using run by blast
qed

theorem panelBucklingStrain_formula_sign_scaling_witness:
  "length [2::real] \<le> length [panel_example] \<and> length [2::real] \<le> length [0::nat] \<and>
   [0::nat] ! 0 + 1 < length (loc ([panel_example] ! 0)) \<and>
   sector_length 2 panel_example 0 \<noteq> 0 \<and>
   0 < compositeMatrices_totalHeight panel_example 0 \<and>
   0 < effectiveEAxial panel_example 0 \<and>
   positive_definite_D panel_example 0 \<and>
   panelBucklingStrain [2] [panel_example] [0] = Inr [- (6 * pi\<^sup>2)] \<and>
   - (6 * pi\<^sup>2) < 0 \<and>
   panelBucklingStrain [4] [panel_example] [0] = Inr [- (6 * pi\<^sup>2) / 4]"
proof -
  have h: "length [2::real] \<le> length [panel_example]" "length [2::real] \<le> length [0::nat]"
    "\<forall>j<length [2::real]. [0::nat] ! j + 1 < length (loc ([panel_example] ! j))"
    by (simp_all add: panel_example_def)
  have q: "sector_length 2 panel_example 0 \<noteq> 0"
    "0 < compositeMatrices_totalHeight panel_example 0"
    "0 < effectiveEAxial panel_example 0" "positive_definite_D panel_example 0"
    by (simp_all add: sector_length_def positive_definite_D_def panel_example_def)
  from panelBucklingStrain_formula_sign_scaling [OF h]
  obtain eps where e1: "panelBucklingStrain [2] [panel_example] [0] = Inr eps"
    and e2: "length eps = length [2::real]"
    and e3: "\<forall>i<length [2::real].
              (sector_length ([2] ! i) ([panel_example] ! i) ([0] ! i) \<noteq> 0 \<and>
               compositeMatrices_totalHeight ([panel_example] ! i) ([0] ! i) \<noteq> 0 \<and>
               effectiveEAxial ([panel_example] ! i) ([0] ! i) \<noteq> 0 \<longrightarrow>
                 eps ! i = sector_critical_strain ([2] ! i) ([panel_example] ! i) ([0] ! i) \<and>
                 (\<forall>c. c \<noteq> 0 \<longrightarrow>
                    (\<exists>eps'. panelBucklingStrain ([2][i := c * [2] ! i]) [panel_example] [0] = Inr eps' \<and>
                            eps' ! i = eps ! i / c\<^sup>2))) \<and>
              (sector_length ([2] ! i) ([panel_example] ! i) ([0] ! i) \<noteq> 0 \<and>
               0 < compositeMatrices_totalHeight ([panel_example] ! i) ([0] ! i) \<and>
               0 < effectiveEAxial ([panel_example] ! i) ([0] ! i) \<and>
               positive_definite_D ([panel_example] ! i) ([0] ! i) \<longrightarrow> eps ! i < 0)"
    by blast
  have "0 < length [2::real]" by simp
  with e3 have e30: "(sector_length ([2] ! 0) ([panel_example] ! 0) ([0] ! 0) \<noteq> 0 \<and>
               compositeMatrices_totalHeight ([panel_example] ! 0) ([0] ! 0) \<noteq> 0 \<and>
               effectiveEAxial ([panel_example] ! 0) ([0] ! 0) \<noteq> 0 \<longrightarrow>
                 eps ! 0 = sector_critical_strain ([2] ! 0) ([panel_example] ! 0) ([0] ! 0) \<and>
                 (\<forall>c. c \<noteq> 0 \<longrightarrow>
                    (\<exists>eps'. panelBucklingStrain ([2][0 := c * [2] ! 0]) [panel_example] [0] = Inr eps' \<and>
                            eps' ! 0 = eps ! 0 / c\<^sup>2))) \<and>
              (sector_length ([2] ! 0) ([panel_example] ! 0) ([0] ! 0) \<noteq> 0 \<and>
               0 < compositeMatrices_totalHeight ([panel_example] ! 0) ([0] ! 0) \<and>
               0 < effectiveEAxial ([panel_example] ! 0) ([0] ! 0) \<and>
               positive_definite_D ([panel_example] ! 0) ([0] ! 0) \<longrightarrow> eps ! 0 < 0)"
    by blast
  have q': "sector_length ([2] ! 0) ([panel_example] ! 0) ([0] ! 0) \<noteq> 0"
    "compositeMatrices_totalHeight ([panel_example] ! 0) ([0] ! 0) \<noteq> 0"
    "effectiveEAxial ([panel_example] ! 0) ([0] ! 0) \<noteq> 0"
    "0 < compositeMatrices_totalHeight ([panel_example] ! 0) ([0] ! 0)"
    "0 < effectiveEAxial ([panel_example] ! 0) ([0] ! 0)"
    "positive_definite_D ([panel_example] ! 0) ([0] ! 0)"
    using q by simp_all
  from e30 q' have e3': "eps ! 0 = sector_critical_strain ([2] ! 0) ([panel_example] ! 0) ([0] ! 0)"
    and e4: "\<forall>c. c \<noteq> 0 \<longrightarrow>
                    (\<exists>eps'. panelBucklingStrain ([2][0 := c * [2] ! 0]) [panel_example] [0] = Inr eps' \<and>
                            eps' ! 0 = eps ! 0 / c\<^sup>2)"
    and e5: "eps ! 0 < 0"
    by blast+
  from e4 have "\<exists>eps'. panelBucklingStrain ([2][0 := 2 * [2] ! 0]) [panel_example] [0] = Inr eps' \<and>
                            eps' ! 0 = eps ! 0 / 2\<^sup>2"
    by (drule_tac x = 2 in spec) simp
  then obtain eps' where s1: "panelBucklingStrain [4] [panel_example] [0] = Inr eps'"
    and s2: "eps' ! 0 = eps ! 0 / 2\<^sup>2"
    by auto
  have l': "length eps' = 1"
    using s1 unfolding panelBucklingStrain_def mapE_Inr_iff by simp
  have v: "sector_critical_strain 2 panel_example 0 = - (6 * pi\<^sup>2)"
    by (simp add: sector_critical_strain_def critical_strain_def sector_length_def
        panel_example_def)
  from e2 e3' v have eq: "eps = [- (6 * pi\<^sup>2)]"
    by (cases eps) simp_all
  with s2 l' have "eps' = [- (6 * pi\<^sup>2) / 4]"
    by (cases eps') simp_all
  with e1 s1 eq e5 h q show ?thesis by simp
qed

subsection \<open>Principal axes, strain and damage\<close>

lemma strain_nth:
  assumes "i < length xu"
  shows "fst (strain self blade xu yu xl yl) ! i
           = fst (strain_at (self ! i) (shearAndBending_at blade i) (xu ! i) (yu ! i) (xl ! i) (yl ! i))"
    and "snd (strain self blade xu yu xl yl) ! i
           = snd (strain_at (self ! i) (shearAndBending_at blade i) (xu ! i) (yu ! i) (xl ! i) (yl ! i))"
  using assms by (simp_all add: strain_def Let_def)

lemma damage_nth:
  assumes "i < length xu"
  shows "fst (damage self Mx My xu yu xl yl emax eta m N) ! i
           = fst (damage_at (self ! i) (Mx ! i) (My ! i) (xu ! i) (yu ! i) (xl ! i) (yl ! i) emax eta m N)"
    and "snd (damage self Mx My xu yu xl yl emax eta m N) ! i
           = snd (damage_at (self ! i) (Mx ! i) (My ! i) (xu ! i) (yu ! i) (xl ! i) (yl ! i) emax eta m N)"
  using assms by (simp_all add: damage_def Let_def)

lemma principalCS_nth:
  "i < length EIyy \<Longrightarrow>
   principalCS EIyy EIxx y_ec x_ec EA EIxy ! i
     = principalCS_at (EIyy ! i) (EIxx ! i) (y_ec ! i) (x_ec ! i) (EA ! i) (EIxy ! i)"
  by (simp add: principalCS_def)

lemma principalCS_at_ca_sa:
  "self_ca (principalCS_at EIyy EIxx y_ec x_ec EA EIxy)
     = cos (local_alpha (principalCS_at EIyy EIxx y_ec x_ec EA EIxy))"
  "self_sa (principalCS_at EIyy EIxx y_ec x_ec EA EIxy)
     = sin (local_alpha (principalCS_at EIyy EIxx y_ec x_ec EA EIxy))"
  by (simp_all add: principalCS_at_def Let_def)

lemma strain_at_upper:
  assumes "self_ca pa = cos (local_alpha pa)" "self_sa pa = sin (local_alpha pa)"
  shows "fst (strain_at pa (Vx, Vy, Fz, Mx, My, Tz) xu yu xl yl)
           = recovered_strain pa (xu, yu) (Mx, My) Fz"
    and "snd (strain_at pa (Vx, Vy, Fz, Mx, My, Tz) xu yu xl yl)
           = recovered_strain pa (xl, yl) (Mx, My) Fz"
  using assms by (simp_all add: strain_at_def recovered_strain_def to_principal_def Let_def)

lemma RotorWithpBEAM_strain_nth:
  assumes "RotorWithpBEAM_shapes nsec inputs blade" and "i < nsec"
  shows "point_strain (RotorWithpBEAM_compute inputs blade) p ! i
           = recovered_strain (station_axes inputs i)
               (point_x inputs p ! i, point_y inputs p ! i)
               (sb_Mx blade ! i, sb_My blade ! i) (sb_Fz blade ! i)"
proof -
  have len: "i < length (beam_EIyy inputs)" "i < length (xu_strain_spar inputs)"
    "i < length (xu_strain_te inputs)"
    using assms by (simp_all add: RotorWithpBEAM_shapes_def)
  show ?thesis
    by (cases p)
      (simp_all add: RotorWithpBEAM_compute_def Let_def split_beta strain_nth [OF len(2)]
        strain_nth [OF len(3)] principalCS_nth [OF len(1)] station_axes_def
        shearAndBending_at_def strain_at_upper principalCS_at_ca_sa)
qed


lemma damage_at_strain:
  assumes "self_ca pa = cos (local_alpha pa)" "self_sa pa = sin (local_alpha pa)"
  shows "fst (damage_at pa Mx My xu yu xl yl emax eta m N)
           = ln N - m * (ln emax - ln eta - ln \<bar>recovered_strain pa (xu, yu) (Mx, My) 0\<bar>)"
    and "snd (damage_at pa Mx My xu yu xl yl emax eta m N)
           = ln N - m * (ln emax - ln eta - ln \<bar>recovered_strain pa (xl, yl) (Mx, My) 0\<bar>)"
  using assms by (simp_all add: damage_at_def recovered_strain_def to_principal_def Let_def)

lemma station_axes_example:
  "station_axes strain_example 0
     = \<lparr>self_EI11 = 2, self_EI22 = 2, self_EA = 4, self_ca = 1, self_sa = 0, local_alpha = 0\<rparr>"
  by (simp add: station_axes_def strain_example_def principalCS_at_def arctan2_def Let_def)

lemma section_axes_example:
  "section_axes strain_example 0
     = \<lparr>self_EI11 = 2, self_EI22 = 3, self_EA = 4, self_ca = 1, self_sa = 0, local_alpha = 0\<rparr>"
  by (simp add: section_axes_def strain_example_def principalCS_with_swap_def arctan2_def Let_def)

lemma shapes_example: "RotorWithpBEAM_shapes 1 strain_example blade_example"
  by (simp add: RotorWithpBEAM_shapes_def strain_example_def blade_example_def)

lemma RotorWithpBEAM_damage_nth:
  assumes "RotorWithpBEAM_shapes nsec inputs blade" and "i < nsec"
  shows "point_damage (RotorWithpBEAM_compute inputs blade) p ! i
           = log_utilization (365 * 24 * 3600 * lifetime inputs) (m_damage inputs)
               (point_strain_ult inputs p) (gamma_fatigue inputs)
               (recovered_strain (station_axes inputs i)
                  (point_x inputs p ! i, point_y inputs p ! i)
                  (Mx_damage inputs ! i, My_damage inputs ! i) 0)"
proof -
  have len: "i < length (beam_EIyy inputs)" "i < length (xu_strain_spar inputs)"
    "i < length (xu_strain_te inputs)"
    using assms(1,2) by (simp_all add: RotorWithpBEAM_shapes_def)
  show ?thesis
    unfolding log_utilization_def
    by (cases p)
      (simp_all add: RotorWithpBEAM_compute_def Let_def split_beta damage_nth [OF len(2)]
        damage_nth [OF len(3)] principalCS_nth [OF len(1)] station_axes_def
        damage_at_strain principalCS_at_ca_sa)
qed

text \<open>
  C2. The claim asks for the strain \<open>- (M1 / EI1 * y_p - M2 / EI2 * x_p + Fz / EA)\<close> with
  the point and the moments taken to the principal frame of the section. The code evaluates
  that formula on the axes that \<^verbatim>\<open>principalCS\<close> left on \<^verbatim>\<open>self\<close> (lemma
  \<open>RotorWithpBEAM_strain_nth\<close>), and these are not the principal axes: the exchange of
  the two stiffnesses is lost (C1). At the station of the example (\<open>EIyy = 2\<close>,
  \<open>EIxx = 3\<close>, \<open>EIxy = 0\<close>, \<open>EA = 4\<close>, no offset) the section has the principal
  stiffnesses 2 and 3 at the angle 0 and the code has 2 and 2; at the upper spar point
  \<open>(1, 3)\<close> with \<open>Mx = 8\<close>, \<open>My = 4\<close> and \<open>Fz = 4\<close> the code returns the strain 9
  and the formula of the claim gives 5.
\<close>

theorem RotorWithpBEAM_strain_off_principal_axes:
  "station_axes strain_example 0
     = \<lparr>self_EI11 = 2, self_EI22 = 2, self_EA = 4, self_ca = 1, self_sa = 0, local_alpha = 0\<rparr> \<and>
   section_axes strain_example 0
     = \<lparr>self_EI11 = 2, self_EI22 = 3, self_EA = 4, self_ca = 1, self_sa = 0, local_alpha = 0\<rparr> \<and>
   point_strain (RotorWithpBEAM_compute strain_example blade_example) SparUpper ! 0 = 9 \<and>
   recovered_strain (section_axes strain_example 0)
     (point_x strain_example SparUpper ! 0, point_y strain_example SparUpper ! 0)
     (sb_Mx blade_example ! 0, sb_My blade_example ! 0) (sb_Fz blade_example ! 0) = 5"
proof -
  have "point_strain (RotorWithpBEAM_compute strain_example blade_example) SparUpper ! 0
          = recovered_strain (station_axes strain_example 0)
              (point_x strain_example SparUpper ! 0, point_y strain_example SparUpper ! 0)
              (sb_Mx blade_example ! 0, sb_My blade_example ! 0) (sb_Fz blade_example ! 0)"
    using RotorWithpBEAM_strain_nth [OF shapes_example, of 0 SparUpper] by simp
  also have "\<dots> = 9"
    unfolding station_axes_example
    by (simp add: recovered_strain_def to_principal_def strain_example_def blade_example_def)
  finally have code: "point_strain (RotorWithpBEAM_compute strain_example blade_example) SparUpper ! 0 = 9" .
  have "recovered_strain (section_axes strain_example 0)
     (point_x strain_example SparUpper ! 0, point_y strain_example SparUpper ! 0)
     (sb_Mx blade_example ! 0, sb_My blade_example ! 0) (sb_Fz blade_example ! 0) = 5"
    unfolding section_axes_example
    by (simp add: recovered_strain_def to_principal_def strain_example_def blade_example_def)
  with code station_axes_example section_axes_example show ?thesis by simp
qed

text \<open>
  C3. The claim asks for the damage \<open>ln N - m (ln emax - ln eta - ln |strain|)\<close> with the
  strain recovered in the principal frame of the section at \<open>Fz = 0\<close>. The code applies
  the logarithmic formula to the strain on the axes of \<^verbatim>\<open>principalCS\<close> (lemma
  \<open>RotorWithpBEAM_damage_nth\<close>), which are not the principal axes (C1, C2). At the
  station of the example, at the lower trailing-edge point \<open>(2, -1)\<close> with the
  damage-equivalent moments \<open>Mx = 8\<close>, \<open>My = 4\<close>, the ultimate strain 10, the safety
  factor 1, the slope 2 and a lifetime of 20 years, the code's strain is \<open>-8\<close> and the
  strain of the claim is \<open>-20/3\<close>, and the two damages differ.
\<close>

theorem RotorWithpBEAM_damage_off_principal_axes:
  "point_damage (RotorWithpBEAM_compute strain_example blade_example) TELower ! 0
     = log_utilization 630720000 2 10 1 (- 8) \<and>
   recovered_strain (section_axes strain_example 0)
     (point_x strain_example TELower ! 0, point_y strain_example TELower ! 0)
     (Mx_damage strain_example ! 0, My_damage strain_example ! 0) 0 = - (20 / 3) \<and>
   log_utilization (365 * 24 * 3600 * lifetime strain_example) (m_damage strain_example)
     (point_strain_ult strain_example TELower) (gamma_fatigue strain_example) (- (20 / 3))
     = log_utilization 630720000 2 10 1 (- (20 / 3)) \<and>
   log_utilization 630720000 2 10 1 (- 8) \<noteq> log_utilization 630720000 2 10 1 (- (20 / 3))"
proof -
  have s: "recovered_strain (station_axes strain_example 0)
             (xl_strain_te strain_example ! 0, yl_strain_te strain_example ! 0)
             (Mx_damage strain_example ! 0, My_damage strain_example ! 0) 0 = - 8"
    unfolding station_axes_example
    by (simp add: recovered_strain_def to_principal_def strain_example_def)
  have v: "lifetime strain_example = 20" "m_damage strain_example = 2"
    "strain_ult_te strain_example = 10" "gamma_fatigue strain_example = 1"
    by (simp_all add: strain_example_def)
  have code: "point_damage (RotorWithpBEAM_compute strain_example blade_example) TELower ! 0
     = log_utilization 630720000 2 10 1 (- 8)"
    using RotorWithpBEAM_damage_nth [OF shapes_example, of 0 TELower]
    by (simp add: s v)
  have claim: "recovered_strain (section_axes strain_example 0)
     (point_x strain_example TELower ! 0, point_y strain_example TELower ! 0)
     (Mx_damage strain_example ! 0, My_damage strain_example ! 0) 0 = - (20 / 3)"
    unfolding section_axes_example
    by (simp add: recovered_strain_def to_principal_def strain_example_def)
  have same: "log_utilization (365 * 24 * 3600 * lifetime strain_example) (m_damage strain_example)
     (point_strain_ult strain_example TELower) (gamma_fatigue strain_example) (- (20 / 3))
     = log_utilization 630720000 2 10 1 (- (20 / 3))"
    by (simp add: v)
  have "ln (8::real) \<noteq> ln (20 / 3)"
    by (simp add: ln_inj_iff)
  then have differ: "log_utilization 630720000 2 10 1 (- 8) \<noteq> log_utilization 630720000 2 10 1 (- (20 / 3))"
    by (simp add: log_utilization_def)
  from code claim same differ show ?thesis by blast
qed

lemma sqrt_sum_squares_pos: "x \<noteq> 0 \<or> y \<noteq> 0 \<Longrightarrow> 0 < sqrt (x\<^sup>2 + y\<^sup>2)" for x y :: real
  by (auto simp: sum_power2_gt_zero_iff)

lemma cos_sin_arctan_quotient:
  fixes x y :: real
  assumes "0 < x"
  shows "cos (arctan (y / x)) = x / sqrt (x\<^sup>2 + y\<^sup>2)"
    and "sin (arctan (y / x)) = y / sqrt (x\<^sup>2 + y\<^sup>2)"
proof -
  have "1 + (y / x)\<^sup>2 = (x\<^sup>2 + y\<^sup>2) / x\<^sup>2"
    using assms by (simp add: power_divide field_simps)
  then have r: "sqrt (1 + (y / x)\<^sup>2) = sqrt (x\<^sup>2 + y\<^sup>2) / x"
    using assms by (simp add: real_sqrt_divide)
  show "cos (arctan (y / x)) = x / sqrt (x\<^sup>2 + y\<^sup>2)"
    by (simp add: cos_arctan r)
  show "sin (arctan (y / x)) = y / sqrt (x\<^sup>2 + y\<^sup>2)"
    using assms by (simp add: sin_arctan r)
qed

lemma cos_sin_arctan_quotient_neg:
  fixes x y :: real
  assumes "x < 0"
  shows "cos (arctan (y / x)) = - x / sqrt (x\<^sup>2 + y\<^sup>2)"
    and "sin (arctan (y / x)) = - y / sqrt (x\<^sup>2 + y\<^sup>2)"
  using cos_sin_arctan_quotient [of "- x" "- y"] assms by simp_all

lemma cos_arctan2: "x \<noteq> 0 \<or> y \<noteq> 0 \<Longrightarrow> cos (arctan2 y x) = x / sqrt (x\<^sup>2 + y\<^sup>2)"
  by (cases "0 < x"; cases "x < 0")
    (auto simp: arctan2_def cos_sin_arctan_quotient cos_sin_arctan_quotient_neg)

lemma sin_arctan2: "x \<noteq> 0 \<or> y \<noteq> 0 \<Longrightarrow> sin (arctan2 y x) = y / sqrt (x\<^sup>2 + y\<^sup>2)"
  by (cases "0 < x"; cases "x < 0")
    (auto simp: arctan2_def cos_sin_arctan_quotient cos_sin_arctan_quotient_neg
      real_sqrt_abs abs_if)

lemma principal_angle_nulls_cross_term:
  "rotated_EIxy EIxx EIyy EIxy ((1 / 2) * arctan2 (2 * EIxy) (EIyy - EIxx)) = 0"
proof (cases "EIyy - EIxx \<noteq> 0 \<or> 2 * EIxy \<noteq> 0")
  case True
  then have "0 < sqrt ((EIyy - EIxx)\<^sup>2 + (2 * EIxy)\<^sup>2)"
    by (rule sqrt_sum_squares_pos)
  then show ?thesis
    using True by (simp add: rotated_EIxy_def cos_arctan2 sin_arctan2 field_simps)
next
  case False
  then show ?thesis by (simp add: rotated_EIxy_def arctan2_def)
qed

lemma principal_stiffness_is_rotated_EIxx:
  assumes "alpha = (1 / 2) * arctan2 (2 * EIxy) (EIyy - EIxx)" and "cos alpha \<noteq> 0"
  shows "rotated_EIxx EIxx EIyy EIxy alpha = EIxx - EIxy * tan alpha"
proof -
  define s c where "s = sin alpha" and "c = cos alpha"
  have "2 * alpha = arctan2 (2 * EIxy) (EIyy - EIxx)" using assms(1) by simp
  moreover have "(EIxx - EIyy) / 2 * sin (2 * ((1 / 2) * arctan2 (2 * EIxy) (EIyy - EIxx)))
           + EIxy * cos (2 * ((1 / 2) * arctan2 (2 * EIxy) (EIyy - EIxx))) = 0"
    using principal_angle_nulls_cross_term [of EIxx EIyy EIxy]
    unfolding rotated_EIxy_def .
  ultimately have "(EIxx - EIyy) / 2 * sin (2 * alpha) + EIxy * cos (2 * alpha) = 0"
    by simp
  then have "(EIxx - EIyy) / 2 * (2 * s * c) + EIxy * (2 * c\<^sup>2 - 1) = 0"
    unfolding s_def c_def by (simp only: sin_double cos_double_cos)
  then have k: "(EIxx - EIyy) * (s * c) + EIxy * (2 * c\<^sup>2 - 1) = 0"
    by simp
  have one: "s\<^sup>2 + c\<^sup>2 = 1" unfolding s_def c_def by simp
  have c0: "c \<noteq> 0" using assms(2) by (simp add: c_def)
  have "(rotated_EIxx EIxx EIyy EIxy alpha - (EIxx - EIxy * tan alpha)) * c
          = EIxx * c\<^sup>2 * c + EIyy * s\<^sup>2 * c - 2 * EIxy * s * c * c - EIxx * c + EIxy * s"
    using c0 unfolding rotated_EIxx_def tan_def s_def [symmetric] c_def [symmetric]
    by (simp add: field_simps)
  also have "\<dots> = 0"
    using k one by algebra
  finally show ?thesis using c0 by simp
qed

lemma principalCS_ignores_EIxx_and_x_ec:
  "principalCS_at EIyy EIxx y_ec x_ec EA EIxy = principalCS_at EIyy EIxx' y_ec x_ec' EA EIxy"
  by (simp add: principalCS_at_def)

text \<open>
  C1. The claim asks that the angle be \<open>alpha = atan2(2 EIxy, EIyy - EIxx) / 2\<close> on the
  translated stiffnesses of the section, so that the cross term vanishes in the rotated
  frame. \<^verbatim>\<open>principalCS\<close> rebinds \<^verbatim>\<open>EIxx\<close> before it reads it for
  \<^verbatim>\<open>EIyy\<close> (and \<^verbatim>\<open>x_ec\<close> before \<^verbatim>\<open>y_ec\<close>): both stiffnesses become the
  input \<^verbatim>\<open>EIyy\<close>, their difference is 0 and the angle is a quarter turn or 0. At the
  station with \<open>EIyy = 5\<close>, \<open>EIxx = 3\<close>, \<open>EIxy = 1\<close>, \<open>EA = 1\<close> and no
  offset, the code returns \<open>alpha = pi / 4\<close>, \<open>EI11 = 4\<close> and \<open>EI22 = 6\<close>; the
  cross term of the section in the frame rotated by that angle is 1; the angle of the claim
  is \<open>3 pi / 8\<close>.
\<close>

theorem principalCS_swap_is_lost:
  "principalCS [5] [3] [0] [0] [1] [1]
     = [\<lparr>self_EI11 = 4, self_EI22 = 6, self_EA = 1, self_ca = cos (pi / 4),
         self_sa = sin (pi / 4), local_alpha = pi / 4\<rparr>] \<and>
   rotated_EIxy 5 3 1 (pi / 4) = 1 \<and>
   (1 / 2) * arctan2 (2 * 1) (3 - 5) = 3 * pi / 8"
  by (simp add: principalCS_def principalCS_at_def arctan2_def Let_def tan_45 rotated_EIxy_def
      arctan_minus arctan_one)

subsection \<open>Blade curvature\<close>








subsection \<open>Section resizer\<close>

lemma scale_t_Inr:
  "i < length factor \<Longrightarrow> scale_t factor i t = Inr (map (map (\<lambda>x. np_mul x (factor ! i))) t)"
  unfolding scale_t_def by (rule mapE_all_Inr) (simp add: get_def bindE_def)

lemma imul_t_Inr:
  "idx < length (h obj) \<Longrightarrow> i < length target \<Longrightarrow>
   imul_t h obj idx target i tsum
     = Inr (h(obj := (h obj)[idx := map (\<lambda>x. np_mul x (np_div (Fin (target ! i)) tsum)) (h obj ! idx)]))"
  by (simp add: imul_t_def get_def bindE_def)


lemma resize_station_Inr:
  assumes u: "u = rs_upperCS_in inputs ! i" and l: "l = rs_lowerCS_in inputs ! i"
    and w: "w = rs_websCS_in inputs ! i"
    and ks: "ks = rs_sector_idx_strain_spar inputs ! i"
    and kt: "kt = rs_sector_idx_strain_te inputs ! i"
    and f: "f = factor ! i"
    and rs: "r_spar = np_div (Fin (rs_sparT inputs ! i))
                        (np_sum (map (\<lambda>x. np_mul x f) (h u ! ks)))"
    and rt: "r_te = np_div (Fin (rs_teT inputs ! i))
                      (np_sum (map (\<lambda>x. np_mul x f) (h u ! kt)))"
    and len: "i < length factor" "i < length (rs_upperCS_in inputs)"
      "i < length (rs_lowerCS_in inputs)" "i < length (rs_websCS_in inputs)"
      "i < length (rs_sector_idx_strain_spar inputs)" "i < length (rs_sector_idx_strain_te inputs)"
      "i < length (rs_sparT inputs)" "i < length (rs_teT inputs)"
    and d: "u \<noteq> l" "u \<noteq> w" "l \<noteq> w"
    and v: "ks < length (h u)" "ks < length (h l)" "kt < length (h u)" "kt < length (h l)"
  shows "resize_station inputs factor h i
           = Inr (h(w := map (map (\<lambda>x. np_mul x f)) (h w),
                    u := resized_surface f r_spar r_te ks kt (h u),
                    l := resized_surface f r_spar r_te ks kt (h l)))"
proof -
  have "resize_station inputs factor h i
          = Inr (h(u := map (map (\<lambda>x. np_mul x f)) (h u),
                   l := map (map (\<lambda>x. np_mul x f)) (h l),
                   w := map (map (\<lambda>x. np_mul x f)) (h w),
                   u := (map (map (\<lambda>x. np_mul x f)) (h u))
                          [ks := map (\<lambda>x. np_mul x r_spar) (map (\<lambda>x. np_mul x f) (h u ! ks))],
                   l := (map (map (\<lambda>x. np_mul x f)) (h l))
                          [ks := map (\<lambda>x. np_mul x r_spar) (map (\<lambda>x. np_mul x f) (h l ! ks))],
                   u := resized_surface f r_spar r_te ks kt (h u),
                   l := resized_surface f r_spar r_te ks kt (h l)))"
    using len d v
    by (simp add: resize_station_def get_def bindE_def scale_t_Inr imul_t_Inr Let_def
        resized_surface_def u [symmetric] l [symmetric] w [symmetric] ks [symmetric]
        kt [symmetric] f [symmetric] rs [symmetric] rt [symmetric])
  also have "h(u := map (map (\<lambda>x. np_mul x f)) (h u),
                   l := map (map (\<lambda>x. np_mul x f)) (h l),
                   w := map (map (\<lambda>x. np_mul x f)) (h w),
                   u := (map (map (\<lambda>x. np_mul x f)) (h u))
                          [ks := map (\<lambda>x. np_mul x r_spar) (map (\<lambda>x. np_mul x f) (h u ! ks))],
                   l := (map (map (\<lambda>x. np_mul x f)) (h l))
                          [ks := map (\<lambda>x. np_mul x r_spar) (map (\<lambda>x. np_mul x f) (h l ! ks))],
                   u := resized_surface f r_spar r_te ks kt (h u),
                   l := resized_surface f r_spar r_te ks kt (h l))
             = h(w := map (map (\<lambda>x. np_mul x f)) (h w),
                    u := resized_surface f r_spar r_te ks kt (h u),
                    l := resized_surface f r_spar r_te ks kt (h l))"
    using d by (auto simp: fun_eq_iff)
  finally show ?thesis .
qed


lemma distinct_sections:
  assumes "resize_shapes n inputs"
    and "distinct (rs_upperCS_in inputs @ rs_lowerCS_in inputs @ rs_websCS_in inputs)"
    and "i < n" and "j < n"
  shows "rs_upperCS_in inputs ! i \<noteq> rs_lowerCS_in inputs ! j"
    and "rs_upperCS_in inputs ! i \<noteq> rs_websCS_in inputs ! j"
    and "rs_lowerCS_in inputs ! i \<noteq> rs_websCS_in inputs ! j"
    and "i \<noteq> j \<Longrightarrow> rs_upperCS_in inputs ! i \<noteq> rs_upperCS_in inputs ! j"
    and "i \<noteq> j \<Longrightarrow> rs_lowerCS_in inputs ! i \<noteq> rs_lowerCS_in inputs ! j"
    and "i \<noteq> j \<Longrightarrow> rs_websCS_in inputs ! i \<noteq> rs_websCS_in inputs ! j"
proof -
  have len: "length (rs_upperCS_in inputs) = n" "length (rs_lowerCS_in inputs) = n"
    "length (rs_websCS_in inputs) = n"
    using assms(1) by (simp_all add: resize_shapes_def)
  have mem: "rs_upperCS_in inputs ! i \<in> set (rs_upperCS_in inputs)"
    "rs_lowerCS_in inputs ! i \<in> set (rs_lowerCS_in inputs)"
    "rs_lowerCS_in inputs ! j \<in> set (rs_lowerCS_in inputs)"
    "rs_websCS_in inputs ! j \<in> set (rs_websCS_in inputs)"
    using assms(3,4) len by simp_all
  have dis: "distinct (rs_upperCS_in inputs)" "distinct (rs_lowerCS_in inputs)"
    "distinct (rs_websCS_in inputs)"
    "set (rs_upperCS_in inputs) \<inter> set (rs_lowerCS_in inputs) = {}"
    "set (rs_upperCS_in inputs) \<inter> set (rs_websCS_in inputs) = {}"
    "set (rs_lowerCS_in inputs) \<inter> set (rs_websCS_in inputs) = {}"
    using assms(2) by auto
  show "rs_upperCS_in inputs ! i \<noteq> rs_lowerCS_in inputs ! j"
    using mem dis(4) by auto
  show "rs_upperCS_in inputs ! i \<noteq> rs_websCS_in inputs ! j"
    using mem dis(5) by auto
  show "rs_lowerCS_in inputs ! i \<noteq> rs_websCS_in inputs ! j"
    using mem dis(6) by auto
  show "i \<noteq> j \<Longrightarrow> rs_upperCS_in inputs ! i \<noteq> rs_upperCS_in inputs ! j"
    using dis(1) assms(3,4) len by (simp add: nth_eq_iff_index_eq)
  show "i \<noteq> j \<Longrightarrow> rs_lowerCS_in inputs ! i \<noteq> rs_lowerCS_in inputs ! j"
    using dis(2) assms(3,4) len by (simp add: nth_eq_iff_index_eq)
  show "i \<noteq> j \<Longrightarrow> rs_websCS_in inputs ! i \<noteq> rs_websCS_in inputs ! j"
    using dis(3) assms(3,4) len by (simp add: nth_eq_iff_index_eq)
qed

lemma np_divide_shapes:
  assumes "resize_shapes n inputs"
  shows "np_divide (rs_chord inputs) (rs_chord_ref inputs)
           = Inr (map (station_factor inputs) [0..<n])"
proof -
  have len: "length (rs_chord inputs) = n" "length (rs_chord_ref inputs) = n"
    using assms by (simp_all add: resize_shapes_def)
  have "map (\<lambda>(x, y). np_div (Fin x) (Fin y)) (zip (rs_chord inputs) (rs_chord_ref inputs))
          = map (station_factor inputs) [0..<n]"
    using len by (intro nth_equalityI) (simp_all add: station_factor_def)
  then show ?thesis using len by (simp add: np_divide_def)
qed

lemma resize_station_explicit:
  assumes sh: "resize_shapes n inputs"
    and di: "distinct (rs_upperCS_in inputs @ rs_lowerCS_in inputs @ rs_websCS_in inputs)"
    and i: "i < n" and pr: "sectors_present inputs h i"
  shows "resize_station inputs (map (station_factor inputs) [0..<n]) h i
           = Inr (h(rs_websCS_in inputs ! i :=
                      map (map (\<lambda>x. np_mul x (station_factor inputs i))) (h (rs_websCS_in inputs ! i)),
                    rs_upperCS_in inputs ! i := resized_at inputs h i (h (rs_upperCS_in inputs ! i)),
                    rs_lowerCS_in inputs ! i := resized_at inputs h i (h (rs_lowerCS_in inputs ! i))))"
  unfolding resized_at_def
proof (rule resize_station_Inr [OF refl refl refl refl refl])
  show "station_factor inputs i = map (station_factor inputs) [0..<n] ! i"
    using i by simp
  show "spar_ratio inputs h i
          = np_div (Fin (rs_sparT inputs ! i))
              (np_sum (map (\<lambda>x. np_mul x (station_factor inputs i))
                 (h (rs_upperCS_in inputs ! i) ! (rs_sector_idx_strain_spar inputs ! i))))"
    by (simp add: spar_ratio_def base_thickness_def station_factor_def)
  show "te_ratio inputs h i
          = np_div (Fin (rs_teT inputs ! i))
              (np_sum (map (\<lambda>x. np_mul x (station_factor inputs i))
                 (h (rs_upperCS_in inputs ! i) ! (rs_sector_idx_strain_te inputs ! i))))"
    by (simp add: te_ratio_def base_thickness_def station_factor_def)
qed (use sh i pr distinct_sections [OF sh di i i] in
      \<open>simp_all add: resize_shapes_def sectors_present_def\<close>)


lemma resized_at_cong:
  "h1 (rs_upperCS_in inputs ! i) = h (rs_upperCS_in inputs ! i) \<Longrightarrow>
   resized_at inputs h1 i = resized_at inputs h i"
  by (simp add: resized_at_def spar_ratio_def te_ratio_def base_thickness_def fun_eq_iff)

lemma foldE_resize_station:
  assumes sh: "resize_shapes n inputs"
    and di: "distinct (rs_upperCS_in inputs @ rs_lowerCS_in inputs @ rs_websCS_in inputs)"
    and "distinct js" and "set js \<subseteq> {..<n}"
    and "\<And>j. j \<in> set js \<Longrightarrow> sectors_present inputs h j"
  shows "\<exists>h'. foldE (resize_station inputs (map (station_factor inputs) [0..<n])) h js = Inr h' \<and>
           (\<forall>j\<in>set js.
              h' (rs_upperCS_in inputs ! j) = resized_at inputs h j (h (rs_upperCS_in inputs ! j)) \<and>
              h' (rs_lowerCS_in inputs ! j) = resized_at inputs h j (h (rs_lowerCS_in inputs ! j))) \<and>
           (\<forall>x. (\<forall>j\<in>set js. x \<noteq> rs_upperCS_in inputs ! j \<and> x \<noteq> rs_lowerCS_in inputs ! j \<and>
                              x \<noteq> rs_websCS_in inputs ! j) \<longrightarrow> h' x = h x)"
  using assms(3-5)
proof (induction js arbitrary: h)
  case Nil
  show ?case by simp
next
  case (Cons i js)
  let ?U = "\<lambda>j. rs_upperCS_in inputs ! j" and ?L = "\<lambda>j. rs_lowerCS_in inputs ! j"
    and ?W = "\<lambda>j. rs_websCS_in inputs ! j"
  let ?h1 = "h(?W i := map (map (\<lambda>x. np_mul x (station_factor inputs i))) (h (?W i)),
               ?U i := resized_at inputs h i (h (?U i)),
               ?L i := resized_at inputs h i (h (?L i)))"
  from Cons.prems have i: "i < n" and inotin: "i \<notin> set js" and djs: "distinct js"
    and sub: "set js \<subseteq> {..<n}" by auto
  have step: "resize_station inputs (map (station_factor inputs) [0..<n]) h i = Inr ?h1"
    using Cons.prems(3) [of i] by (intro resize_station_explicit [OF sh di i]) simp
  have other: "?U j \<noteq> ?U i \<and> ?U j \<noteq> ?L i \<and> ?U j \<noteq> ?W i \<and>
               ?L j \<noteq> ?U i \<and> ?L j \<noteq> ?L i \<and> ?L j \<noteq> ?W i \<and>
               ?W j \<noteq> ?U i \<and> ?W j \<noteq> ?L i \<and> ?W j \<noteq> ?W i" if "j \<in> set js" for j
  proof -
    from that sub inotin have j: "j < n" "j \<noteq> i" by auto
    show ?thesis
      using distinct_sections [OF sh di j(1) i] distinct_sections [OF sh di i j(1)] j(2)
      by (metis (no_types))
  qed
  have same: "?h1 (?U j) = h (?U j)" "?h1 (?L j) = h (?L j)" if "j \<in> set js" for j
    using other [OF that] by simp_all
  have pres: "sectors_present inputs ?h1 j" if "j \<in> set js" for j
  proof -
    have "sectors_present inputs h j" using Cons.prems(3) [of j] that by simp
    then show ?thesis unfolding sectors_present_def by (simp only: same [OF that])
  qed
  from Cons.IH [OF djs sub pres]
  obtain h' where run: "foldE (resize_station inputs (map (station_factor inputs) [0..<n])) ?h1 js = Inr h'"
    and eff: "\<forall>j\<in>set js.
              h' (?U j) = resized_at inputs ?h1 j (?h1 (?U j)) \<and>
              h' (?L j) = resized_at inputs ?h1 j (?h1 (?L j))"
    and frame: "\<forall>x. (\<forall>j\<in>set js. x \<noteq> ?U j \<and> x \<noteq> ?L j \<and> x \<noteq> ?W j) \<longrightarrow> h' x = ?h1 x"
    by blast
  have ul: "?U i \<noteq> ?L i" using distinct_sections(1) [OF sh di i i] .
  have "h' (?U i) = ?h1 (?U i)" "h' (?L i) = ?h1 (?L i)"
    using frame other by metis+
  then have head: "h' (?U i) = resized_at inputs h i (h (?U i))"
    "h' (?L i) = resized_at inputs h i (h (?L i))"
    using ul by simp_all
  have tail: "h' (?U j) = resized_at inputs h j (h (?U j)) \<and>
              h' (?L j) = resized_at inputs h j (h (?L j))" if "j \<in> set js" for j
  proof -
    have "resized_at inputs ?h1 j = resized_at inputs h j"
      using same(1) [OF that] by (rule resized_at_cong [where h = h and i = j])
    moreover have "h' (?U j) = resized_at inputs ?h1 j (?h1 (?U j))"
      "h' (?L j) = resized_at inputs ?h1 j (?h1 (?L j))"
      using eff that by blast+
    ultimately show ?thesis by (simp only: same [OF that])
  qed
  have fr: "h' x = h x"
    if "\<forall>j\<in>set (i # js). x \<noteq> ?U j \<and> x \<noteq> ?L j \<and> x \<noteq> ?W j" for x
  proof -
    from that have "h' x = ?h1 x" using frame by simp
    also from that have "?h1 x = h x" by simp
    finally show ?thesis .
  qed
  show ?case
    using step run head tail fr by (intro exI [of _ h']) (simp add: bindE_def)
qed


lemma np_mul_NonFinite [simp]: "np_mul x NonFinite = NonFinite"
  by (cases x) simp_all

lemma resized_surface_spar_nonfinite:
  assumes "ks < length t" and "x \<in> set (resized_surface f NonFinite r_te ks kt t ! ks)"
  shows "x = NonFinite"
  using assms by (cases "kt = ks") (auto simp: resized_surface_def Let_def)

lemma resized_surface_te_nonfinite:
  assumes "kt < length t" and "x \<in> set (resized_surface f r_spar NonFinite ks kt t ! kt)"
  shows "x = NonFinite"
  using assms by (auto simp: resized_surface_def Let_def)

text \<open>
  C8, as the code has it. With arrays of one length, pairwise distinct section objects and
  the spar and trailing-edge sectors present in every upper and lower surface, the call
  returns (no exception is raised, whatever the thicknesses are); and where at a station
  the base thickness of the spar sector, or of the trailing-edge sector, sums to zero, every
  ply of that sector of the upper and of the lower surface is non-finite in the result.
\<close>

theorem ResizeCompositeSection_zero_thickness_returns_nonfinite:
  assumes sh: "resize_shapes n inputs"
    and di: "distinct (rs_upperCS_in inputs @ rs_lowerCS_in inputs @ rs_websCS_in inputs)"
    and pr: "\<forall>i<n. sectors_present inputs h i"
    and k: "k < n"
  shows "\<exists>h'. ResizeCompositeSection_compute inputs h
                 = Inr (h', \<lparr>rs_upperCS = rs_upperCS_in inputs, rs_lowerCS = rs_lowerCS_in inputs,
                             rs_websCS = rs_websCS_in inputs\<rparr>) \<and>
           (base_thickness inputs h k (rs_sector_idx_strain_spar inputs ! k) = Fin 0 \<longrightarrow>
              (\<forall>x\<in>set (h' (rs_upperCS_in inputs ! k) ! (rs_sector_idx_strain_spar inputs ! k)).
                 x = NonFinite) \<and>
              (\<forall>x\<in>set (h' (rs_lowerCS_in inputs ! k) ! (rs_sector_idx_strain_spar inputs ! k)).
                 x = NonFinite)) \<and>
           (base_thickness inputs h k (rs_sector_idx_strain_te inputs ! k) = Fin 0 \<longrightarrow>
              (\<forall>x\<in>set (h' (rs_upperCS_in inputs ! k) ! (rs_sector_idx_strain_te inputs ! k)).
                 x = NonFinite) \<and>
              (\<forall>x\<in>set (h' (rs_lowerCS_in inputs ! k) ! (rs_sector_idx_strain_te inputs ! k)).
                 x = NonFinite))"
proof -
  let ?U = "rs_upperCS_in inputs ! k" and ?L = "rs_lowerCS_in inputs ! k"
  let ?ks = "rs_sector_idx_strain_spar inputs ! k" and ?kt = "rs_sector_idx_strain_te inputs ! k"
  have len: "length (rs_chord inputs) = n" using sh by (simp add: resize_shapes_def)
  have "\<exists>h'. foldE (resize_station inputs (map (station_factor inputs) [0..<n])) h [0..<n] = Inr h' \<and>
           (\<forall>j\<in>set [0..<n].
              h' (rs_upperCS_in inputs ! j) = resized_at inputs h j (h (rs_upperCS_in inputs ! j)) \<and>
              h' (rs_lowerCS_in inputs ! j) = resized_at inputs h j (h (rs_lowerCS_in inputs ! j))) \<and>
           (\<forall>x. (\<forall>j\<in>set [0..<n]. x \<noteq> rs_upperCS_in inputs ! j \<and> x \<noteq> rs_lowerCS_in inputs ! j \<and>
                              x \<noteq> rs_websCS_in inputs ! j) \<longrightarrow> h' x = h x)"
    by (rule foldE_resize_station [OF sh di]) (use pr in auto)
  then obtain h' where run: "foldE (resize_station inputs (map (station_factor inputs) [0..<n])) h [0..<n] = Inr h'"
    and eff: "\<forall>j\<in>set [0..<n].
              h' (rs_upperCS_in inputs ! j) = resized_at inputs h j (h (rs_upperCS_in inputs ! j)) \<and>
              h' (rs_lowerCS_in inputs ! j) = resized_at inputs h j (h (rs_lowerCS_in inputs ! j))"
    by blast
  from eff k have up: "h' ?U = resized_at inputs h k (h ?U)"
    and lo: "h' ?L = resized_at inputs h k (h ?L)" by simp_all
  from pr k have p: "?ks < length (h ?U)" "?ks < length (h ?L)" "?kt < length (h ?U)"
    "?kt < length (h ?L)"
    by (simp_all add: sectors_present_def)
  have spar: "x = NonFinite"
    if "base_thickness inputs h k ?ks = Fin 0" "x \<in> set (h' ?U ! ?ks) \<or> x \<in> set (h' ?L ! ?ks)" for x
  proof -
    from that(1) have "spar_ratio inputs h k = NonFinite" by (simp add: spar_ratio_def)
    with that(2) show ?thesis
      unfolding up lo resized_at_def
      using resized_surface_spar_nonfinite [OF p(1)] resized_surface_spar_nonfinite [OF p(2)]
      by auto
  qed
  have te: "x = NonFinite"
    if "base_thickness inputs h k ?kt = Fin 0" "x \<in> set (h' ?U ! ?kt) \<or> x \<in> set (h' ?L ! ?kt)" for x
  proof -
    from that(1) have "te_ratio inputs h k = NonFinite" by (simp add: te_ratio_def)
    with that(2) show ?thesis
      unfolding up lo resized_at_def
      using resized_surface_te_nonfinite [OF p(3)] resized_surface_te_nonfinite [OF p(4)]
      by auto
  qed
  have "ResizeCompositeSection_compute inputs h
          = Inr (h', \<lparr>rs_upperCS = rs_upperCS_in inputs, rs_lowerCS = rs_lowerCS_in inputs,
                      rs_websCS = rs_websCS_in inputs\<rparr>)"
    by (simp add: ResizeCompositeSection_compute_def np_divide_shapes [OF sh] bindE_def len run)
  then show ?thesis using spar te by blast
qed

lemma compute_zero_spar:
  "ResizeCompositeSection_compute resize_inputs_example store_zero_spar
     = Inr (store_zero_spar_after, resize_outputs_example)"
  by (simp add: ResizeCompositeSection_compute_def np_divide_def resize_station_def
      resize_inputs_example_def resize_outputs_example_def store_zero_spar_def
      store_zero_spar_after_def scale_t_def imul_t_def get_def bindE_def np_sum_def Let_def
      fun_upd_twist)

theorem ResizeCompositeSection_zero_thickness_returns_nonfinite_witness:
  "resize_shapes 1 resize_inputs_example \<and>
   distinct (rs_upperCS_in resize_inputs_example @ rs_lowerCS_in resize_inputs_example
             @ rs_websCS_in resize_inputs_example) \<and>
   sectors_present resize_inputs_example store_zero_spar 0 \<and> (0::nat) < 1 \<and>
   base_thickness resize_inputs_example store_zero_spar 0
     (rs_sector_idx_strain_spar resize_inputs_example ! 0) = Fin 0 \<and>
   ResizeCompositeSection_compute resize_inputs_example store_zero_spar
     = Inr (store_zero_spar_after, resize_outputs_example) \<and>
   hd (store_zero_spar_after 0 ! 1) = NonFinite"
proof -
  have h: "resize_shapes 1 resize_inputs_example"
    "distinct (rs_upperCS_in resize_inputs_example @ rs_lowerCS_in resize_inputs_example
             @ rs_websCS_in resize_inputs_example)"
    "\<forall>i<1. sectors_present resize_inputs_example store_zero_spar i" "(0::nat) < 1"
    by (simp_all add: resize_shapes_def resize_inputs_example_def sectors_present_def
        store_zero_spar_def)
  have b: "base_thickness resize_inputs_example store_zero_spar 0
             (rs_sector_idx_strain_spar resize_inputs_example ! 0) = Fin 0"
    by (simp add: base_thickness_def resize_inputs_example_def store_zero_spar_def np_sum_def)
  from ResizeCompositeSection_zero_thickness_returns_nonfinite [OF h] b
  obtain h' where r: "ResizeCompositeSection_compute resize_inputs_example store_zero_spar
                 = Inr (h', \<lparr>rs_upperCS = rs_upperCS_in resize_inputs_example,
                             rs_lowerCS = rs_lowerCS_in resize_inputs_example,
                             rs_websCS = rs_websCS_in resize_inputs_example\<rparr>)"
    and nf: "\<forall>x\<in>set (h' (rs_upperCS_in resize_inputs_example ! 0)
                        ! (rs_sector_idx_strain_spar resize_inputs_example ! 0)). x = NonFinite"
    by blast
  from r compute_zero_spar have "h' = store_zero_spar_after" by simp
  with nf have "\<forall>x\<in>set (store_zero_spar_after 0 ! 1). x = NonFinite"
    by (simp add: resize_inputs_example_def)
  moreover have "store_zero_spar_after 0 ! 1 \<noteq> []"
    by (simp add: store_zero_spar_after_def)
  ultimately have "hd (store_zero_spar_after 0 ! 1) = NonFinite"
    by (cases "store_zero_spar_after 0 ! 1") simp_all
  with h b compute_zero_spar show ?thesis by simp
qed

text \<open>
  C8, as stated, fails: with a spar cap of thickness 0 the base thickness sums to zero, the
  call returns, and the spar plies of both surfaces hold a non-finite value.
\<close>

theorem ResizeCompositeSection_zero_thickness_counterexample:
  "base_thickness resize_inputs_example store_zero_spar 0 1 = Fin 0 \<and>
   ResizeCompositeSection_compute resize_inputs_example store_zero_spar
     = Inr (store_zero_spar_after, resize_outputs_example) \<and>
   store_zero_spar_after 0 ! 1 = [NonFinite] \<and> store_zero_spar_after 1 ! 1 = [NonFinite]"
proof -
  have "base_thickness resize_inputs_example store_zero_spar 0 1 = Fin 0"
    by (simp add: base_thickness_def resize_inputs_example_def store_zero_spar_def np_sum_def)
  moreover have "ResizeCompositeSection_compute resize_inputs_example store_zero_spar
     = Inr (store_zero_spar_after, resize_outputs_example)"
    by (simp add: ResizeCompositeSection_compute_def np_divide_def resize_station_def
      resize_inputs_example_def resize_outputs_example_def store_zero_spar_def
      store_zero_spar_after_def scale_t_def imul_t_def get_def bindE_def np_sum_def Let_def
      fun_upd_twist)
  moreover have "store_zero_spar_after 0 ! 1 = [NonFinite]" "store_zero_spar_after 1 ! 1 = [NonFinite]"
    by (simp_all add: store_zero_spar_after_def)
  ultimately show ?thesis by simp
qed

text \<open>
  C9. The claim asks that a second call with the same inputs give the outputs of the first,
  and that a call leave its inputs as they were. The method assigns to the attribute
  \<^verbatim>\<open>t\<close> of the objects it was given and returns those objects. On the example, the
  first call changes the upper surface it was given from \<open>[[1], [1], [1]]\<close> to
  \<open>[[2], [3], [5]]\<close>; the second call, with the same arrays and the same objects,
  returns \<open>[[4], [3], [5]]\<close> for it, and 4 instead of 2 for the web.
\<close>

theorem ResizeCompositeSection_second_call_differs:
  "ResizeCompositeSection_compute resize_inputs_example store_before
     = Inr (store_after_once, resize_outputs_example) \<and>
   ResizeCompositeSection_compute resize_inputs_example store_after_once
     = Inr (store_after_twice, resize_outputs_example) \<and>
   map store_after_once (rs_upperCS resize_outputs_example) = [[[Fin 2], [Fin 3], [Fin 5]]] \<and>
   map store_after_twice (rs_upperCS resize_outputs_example) = [[[Fin 4], [Fin 3], [Fin 5]]] \<and>
   map store_after_once (rs_websCS resize_outputs_example) = [[[Fin 2]]] \<and>
   map store_after_twice (rs_websCS resize_outputs_example) = [[[Fin 4]]] \<and>
   map store_before (rs_upperCS_in resize_inputs_example) = [[[Fin 1], [Fin 1], [Fin 1]]] \<and>
   map store_after_once (rs_upperCS_in resize_inputs_example) = [[[Fin 2], [Fin 3], [Fin 5]]]"
proof -
  have "ResizeCompositeSection_compute resize_inputs_example store_before
     = Inr (store_after_once, resize_outputs_example)"
    by (simp add: ResizeCompositeSection_compute_def np_divide_def resize_station_def
      resize_inputs_example_def resize_outputs_example_def store_before_def
      store_after_once_def scale_t_def imul_t_def get_def bindE_def np_sum_def Let_def
      fun_upd_twist)
  moreover have "ResizeCompositeSection_compute resize_inputs_example store_after_once
     = Inr (store_after_twice, resize_outputs_example)"
    by (simp add: ResizeCompositeSection_compute_def np_divide_def resize_station_def
      resize_inputs_example_def resize_outputs_example_def store_after_twice_def
      store_after_once_def scale_t_def imul_t_def get_def bindE_def np_sum_def Let_def
      fun_upd_twist)
  ultimately show ?thesis
    by (simp add: resize_outputs_example_def resize_inputs_example_def store_before_def
        store_after_once_def store_after_twice_def)
qed

subsection \<open>Margins\<close>

lemma floor_log2_eqI:
  assumes "2 powi k \<le> x" and "x < 2 powi (k + 1)"
  shows "\<lfloor>log 2 x\<rfloor> = k"
proof -
  have "0 < (2::real) powi k" by simp
  with assms(1) have x: "0 < x" by linarith
  have "(2::real) powr real_of_int k = 2 powi k" "(2::real) powr real_of_int (k + 1) = 2 powi (k + 1)"
    by (rule powr_real_of_int'; simp)+
  with assms show ?thesis
    unfolding floor_log_eq_powr_iff [OF x, of 2, simplified] by simp
qed

lemma to_double_eqI:
  assumes "2 powi k \<le> \<bar>x\<bar>" and "\<bar>x\<bar> < 2 powi (k + 1)" and "- 1022 \<le> k"
    and "round_half_even (x / 2 powi (k - 52)) = m"
    and "\<bar>of_int m * 2 powi (k - 52)\<bar> < (2::real) ^ 1024"
  shows "to_double x = Fin (of_int m * 2 powi (k - 52))"
proof -
  have "0 < (2::real) powi k" by simp
  with assms(1) have "0 < \<bar>x\<bar>" by linarith
  then have x: "x \<noteq> 0" by simp
  have "quantum x = k - 52"
    using floor_log2_eqI [OF assms(1,2)] assms(3) by (simp add: quantum_def)
  then show ?thesis
    using x assms(4,5) by (simp add: to_double_def Let_def)
qed

lemma ex_0_005: "to_double (5 / 1000) = Fin double_0_005"
  using to_double_eqI [of "- 8" "5 / 1000" 5764607523034235]
  by (simp add: round_half_even_def double_0_005_def)


lemma decimal_constants_as_doubles:
  "to_double (135 / 100) = Fin double_1_35"
  "to_double (11 / 10) = Fin double_1_1"
  "to_double (1 / 100) = Fin double_0_01"
  "to_double (7425 / 10000) = Fin double_0_7425"
  using to_double_eqI [of 0 "135 / 100" 6079859496950170]
    to_double_eqI [of 0 "11 / 10" 4953959590107546]
    to_double_eqI [of "- 7" "1 / 100" 5764607523034235]
    to_double_eqI [of "- 1" "7425 / 10000" 6687845446645187]
  by (simp_all add: round_half_even_def double_1_35_def double_1_1_def double_0_01_def
      double_0_7425_def)

lemma gamma_strain_example:
  "d_mul (Fin double_1_35) (Fin double_1_1) = Fin (6687845446645188 / 2 ^ 52)"
  using to_double_eqI [of 0 "double_1_35 * double_1_1" 6687845446645188]
  by (simp add: round_half_even_def double_1_35_def double_1_1_def)

lemma strain_times_gamma_example:
  "d_mul (Fin double_0_005) (Fin (6687845446645188 / 2 ^ 52)) = Fin (8560442171705841 / 2 ^ 60)"
  using to_double_eqI [of "- 8" "double_0_005 * (6687845446645188 / 2 ^ 52)" 8560442171705841]
  by (simp add: round_half_even_def double_0_005_def)

lemma margin_quotient_example:
  "d_div (Fin (8560442171705841 / 2 ^ 60)) (Fin double_0_01) = Fin double_0_7425_next"
  using to_double_eqI [of "- 1" "(8560442171705841 / 2 ^ 60) / double_0_01" 6687845446645188]
  by (simp add: round_half_even_def double_0_01_def double_0_7425_next_def)

lemma strain_margin_example:
  "d_div (d_mul (Fin double_0_005) (d_mul (Fin double_1_35) (Fin double_1_1))) (Fin double_0_01)
     = Fin double_0_7425_next"
  by (simp only: gamma_strain_example strain_times_gamma_example margin_quotient_example)

lemma left_to_right_example:
  "d_div (d_mul (d_mul (Fin double_0_005) (Fin double_1_35)) (Fin double_1_1)) (Fin double_0_01)
     = Fin double_0_7425"
proof -
  have a: "d_mul (Fin double_0_005) (Fin double_1_35) = Fin (7782220156096218 / 2 ^ 60)"
    using to_double_eqI [of "- 8" "double_0_005 * double_1_35" 7782220156096218]
    by (simp add: round_half_even_def double_0_005_def double_1_35_def)
  have b: "d_mul (Fin (7782220156096218 / 2 ^ 60)) (Fin double_1_1) = Fin (8560442171705840 / 2 ^ 60)"
    using to_double_eqI [of "- 8" "(7782220156096218 / 2 ^ 60) * double_1_1" 8560442171705840]
    by (simp add: round_half_even_def double_1_1_def)
  have c: "d_div (Fin (8560442171705840 / 2 ^ 60)) (Fin double_0_01) = Fin double_0_7425"
    using to_double_eqI [of "- 1" "(8560442171705840 / 2 ^ 60) / double_0_01" 6687845446645187]
    by (simp add: round_half_even_def double_0_01_def double_0_7425_def)
  show ?thesis by (simp only: a b c)
qed


lemma round_half_even_error: "\<bar>of_int (round_half_even y) - y\<bar> \<le> 1 / 2"
proof -
  define f where "f = \<lfloor>y\<rfloor>"
  have b: "of_int f \<le> y" "y < of_int f + 1" unfolding f_def by linarith+
  have "(round_half_even y = f \<and> y - of_int f \<le> 1 / 2) \<or>
        (round_half_even y = f + 1 \<and> 1 / 2 \<le> y - of_int f)"
    unfolding round_half_even_def Let_def f_def [symmetric]
    by (cases "y - of_int f < 1 / 2"; cases "1 / 2 < y - of_int f") simp_all
  with b show ?thesis by (auto simp: abs_if)
qed

lemma to_double_relative_error:
  assumes n: "2 powi (- 1022) \<le> \<bar>x\<bar>" and r: "to_double x = Fin r"
  shows "\<bar>r - x\<bar> \<le> 2 powi (- 53) * \<bar>x\<bar>"
proof -
  have "0 < (2::real) powi (- 1022)" by simp
  with n have pos: "0 < \<bar>x\<bar>" by linarith
  then have x: "x \<noteq> 0" by simp
  define k where "k = \<lfloor>log 2 \<bar>x\<bar>\<rfloor>"
  have pw: "(2::real) powr real_of_int j = 2 powi j" for j
    by (rule powr_real_of_int') simp_all
  have "2 powr real_of_int k \<le> \<bar>x\<bar> \<and> \<bar>x\<bar> < 2 powr real_of_int (k + 1)"
    using floor_log_eq_powr_iff [OF pos, of 2 k] by (simp add: k_def)
  then have lo: "2 powi k \<le> \<bar>x\<bar>" and hi: "\<bar>x\<bar> < 2 powi (k + 1)"
    by (simp_all only: pw)
  have "2 powi (- 1022) < (2::real) powi (k + 1)" using n hi by linarith
  have k: "- 1022 \<le> k"
  proof (rule ccontr)
    assume "\<not> - 1022 \<le> k"
    then have "k + 1 \<le> - 1022" by simp
    then have "(2::real) powi (k + 1) \<le> 2 powi (- 1022)"
      by (rule power_int_increasing) simp
    with \<open>2 powi (- 1022) < (2::real) powi (k + 1)\<close> show False by linarith
  qed
  define q where "q = k - 52"
  have qx: "quantum x = q" using k by (simp add: quantum_def k_def q_def)
  define y where "y = x / 2 powi q"
  have rr: "r = of_int (round_half_even y) * 2 powi q"
    using r x by (simp add: to_double_def Let_def qx y_def split: if_splits)
  have xy: "x = y * 2 powi q" by (simp add: y_def)
  have "\<bar>r - x\<bar> = \<bar>of_int (round_half_even y) - y\<bar> * 2 powi q"
    unfolding rr by (subst xy) (simp add: left_diff_distrib [symmetric] abs_mult)
  also have "\<dots> \<le> 1 / 2 * 2 powi q"
    by (intro mult_right_mono round_half_even_error) simp
  also have "1 / 2 * 2 powi q = 2 powi (- 53) * (2::real) powi k"
    by (simp add: q_def power_int_diff power_int_minus field_simps)
  also have "\<dots> \<le> 2 powi (- 53) * \<bar>x\<bar>"
    using lo by (intro mult_left_mono) simp_all
  finally show ?thesis .
qed


lemma strain_margin_error:
  assumes g: "d_mul (Fin gf) (Fin gm) = Fin g" and t: "d_mul (Fin e) (Fin g) = Fin t"
    and r: "d_div (Fin t) (Fin u) = Fin r"
    and n1: "2 powi (- 1022) \<le> \<bar>gf * gm\<bar>" and n2: "2 powi (- 1022) \<le> \<bar>e * g\<bar>"
    and n3: "2 powi (- 1022) \<le> \<bar>t / u\<bar>"
  shows "\<bar>r - e * gf * gm / u\<bar> \<le> ((1 + 2 powi (- 53)) ^ 3 - 1) * \<bar>e * gf * gm / u\<bar>"
proof -
  define eps :: real where "eps = 2 powi (- 53)"
  define G where "G = gf * gm"
  define P where "P = \<bar>e\<bar> * \<bar>G\<bar>"
  have eps: "0 \<le> eps" by (simp add: eps_def)
  have P: "0 \<le> P" by (simp add: P_def)
  have u: "u \<noteq> 0" using r by (auto split: if_splits)
  then have U: "0 < \<bar>u\<bar>" by simp
  have e1: "\<bar>g - G\<bar> \<le> eps * \<bar>G\<bar>"
    using to_double_relative_error [OF n1] g by (simp add: eps_def G_def)
  have e2: "\<bar>t - e * g\<bar> \<le> eps * \<bar>e * g\<bar>"
    using to_double_relative_error [OF n2] t by (simp add: eps_def)
  have e3: "\<bar>r - t / u\<bar> \<le> eps * \<bar>t / u\<bar>"
    using to_double_relative_error [OF n3] r u by (simp add: eps_def)
  have ga: "\<bar>g\<bar> \<le> (1 + eps) * \<bar>G\<bar>"
    using e1 by (simp add: algebra_simps) (linarith?)
  have eg: "\<bar>e * g\<bar> \<le> (1 + eps) * P"
  proof -
    have "\<bar>e * g\<bar> = \<bar>e\<bar> * \<bar>g\<bar>" by (simp add: abs_mult)
    also have "\<dots> \<le> \<bar>e\<bar> * ((1 + eps) * \<bar>G\<bar>)"
      using ga by (intro mult_left_mono) simp_all
    finally show ?thesis by (simp add: P_def algebra_simps)
  qed
  have d1: "\<bar>e * g - e * G\<bar> \<le> eps * P"
  proof -
    have "\<bar>e * g - e * G\<bar> = \<bar>e\<bar> * \<bar>g - G\<bar>"
      by (simp add: right_diff_distrib [symmetric] abs_mult)
    also have "\<dots> \<le> \<bar>e\<bar> * (eps * \<bar>G\<bar>)"
      using e1 by (intro mult_left_mono) simp_all
    finally show ?thesis by (simp add: P_def algebra_simps)
  qed
  have "eps * \<bar>e * g\<bar> \<le> eps * ((1 + eps) * P)"
    using eg eps by (intro mult_left_mono)
  with e2 d1 have t1: "\<bar>t - e * G\<bar> \<le> ((1 + eps)\<^sup>2 - 1) * P"
    by (simp add: power2_eq_square algebra_simps) (linarith?)
  have PG: "\<bar>e * G\<bar> = P" by (simp add: P_def abs_mult)
  from t1 PG have t2: "\<bar>t\<bar> \<le> (1 + eps)\<^sup>2 * P"
    by (simp add: power2_eq_square algebra_simps) (linarith?)
  have q1: "\<bar>t / u - e * G / u\<bar> \<le> ((1 + eps)\<^sup>2 - 1) * P / \<bar>u\<bar>"
  proof -
    have "\<bar>t / u - e * G / u\<bar> = \<bar>t - e * G\<bar> / \<bar>u\<bar>"
      by (simp add: diff_divide_distrib [symmetric])
    also have "\<dots> \<le> ((1 + eps)\<^sup>2 - 1) * P / \<bar>u\<bar>"
      using t1 U by (intro divide_right_mono) simp_all
    finally show ?thesis .
  qed
  have q2: "eps * \<bar>t / u\<bar> \<le> eps * ((1 + eps)\<^sup>2 * P / \<bar>u\<bar>)"
  proof -
    have "\<bar>t / u\<bar> = \<bar>t\<bar> / \<bar>u\<bar>" by simp
    also have "\<dots> \<le> (1 + eps)\<^sup>2 * P / \<bar>u\<bar>"
      using t2 U by (intro divide_right_mono) simp_all
    finally show ?thesis using eps by (intro mult_left_mono)
  qed
  have "\<bar>r - e * G / u\<bar> \<le> \<bar>r - t / u\<bar> + \<bar>t / u - e * G / u\<bar>"
    using abs_triangle_ineq [of "r - t / u" "t / u - e * G / u"] by simp
  also have "\<dots> \<le> eps * ((1 + eps)\<^sup>2 * P / \<bar>u\<bar>) + ((1 + eps)\<^sup>2 - 1) * P / \<bar>u\<bar>"
    using e3 q1 q2 by linarith
  also have "\<dots> = ((1 + eps) ^ 3 - 1) * (P / \<bar>u\<bar>)"
    by (simp add: power2_eq_square power3_eq_cube algebra_simps add_divide_distrib diff_divide_distrib)
  also have "P / \<bar>u\<bar> = \<bar>e * gf * gm / u\<bar>"
    by (simp add: P_def G_def abs_mult)
  finally show ?thesis
    by (simp add: G_def eps_def mult.assoc)
qed


text \<open>
  C7, as the code has it. At every surface and location the strain margin is, station by
  station, \<open>strain * (gamma_f * gamma_m) / ultimate strain\<close> in double precision: the
  product of the two factors is formed and rounded first, then the product with the strain,
  then the quotient. Where none of the three operations overflows or underflows it agrees
  with the real \<open>strain * gamma_f * gamma_m / ultimate strain\<close> to a relative error of at
  most \<open>(1 + 2\<^sup>-\<^sup>5\<^sup>3)\<^sup>3 - 1\<close>. On the worked example it is the double next above the
  one that 0.7425 denotes, within \<open>2 / 10\<^sup>1\<^sup>6\<close> of 0.7425. The damage margins are the input
  damage arrays.
\<close>

theorem ConstraintsStructures_margins_in_double_precision:
  "rotor_strain_sparU (ConstraintsStructures_compute inputs)
     = map (\<lambda>e. strain_margin e (cs_gamma_f inputs) (cs_gamma_m inputs) (cs_strain_ult_spar inputs))
         (cs_strainU_spar inputs) \<and>
   rotor_strain_sparL (ConstraintsStructures_compute inputs)
     = map (\<lambda>e. strain_margin e (cs_gamma_f inputs) (cs_gamma_m inputs) (cs_strain_ult_spar inputs))
         (cs_strainL_spar inputs) \<and>
   rotor_strain_teU (ConstraintsStructures_compute inputs)
     = map (\<lambda>e. strain_margin e (cs_gamma_f inputs) (cs_gamma_m inputs) (cs_strain_ult_te inputs))
         (cs_strainU_te inputs) \<and>
   rotor_strain_teL (ConstraintsStructures_compute inputs)
     = map (\<lambda>e. strain_margin e (cs_gamma_f inputs) (cs_gamma_m inputs) (cs_strain_ult_te inputs))
         (cs_strainL_te inputs) \<and>
   (d_mul (Fin gamma_f) (Fin gamma_m) = Fin g \<and> d_mul (Fin e) (Fin g) = Fin t \<and>
    d_div (Fin t) (Fin strain_ult) = Fin r \<and>
    2 powi (- 1022) \<le> \<bar>gamma_f * gamma_m\<bar> \<and> 2 powi (- 1022) \<le> \<bar>e * g\<bar> \<and>
    2 powi (- 1022) \<le> \<bar>t / strain_ult\<bar> \<longrightarrow>
      strain_margin e gamma_f gamma_m strain_ult = Fin r \<and>
      \<bar>r - e * gamma_f * gamma_m / strain_ult\<bar>
        \<le> ((1 + 2 powi (- 53)) ^ 3 - 1) * \<bar>e * gamma_f * gamma_m / strain_ult\<bar>) \<and>
   rotor_strain_sparU (ConstraintsStructures_compute margins_example) = [Fin double_0_7425_next] \<and>
   rotor_strain_sparL (ConstraintsStructures_compute margins_example) = [Fin double_0_7425_next] \<and>
   rotor_strain_teU (ConstraintsStructures_compute margins_example) = [Fin double_0_7425_next] \<and>
   rotor_strain_teL (ConstraintsStructures_compute margins_example) = [Fin double_0_7425_next] \<and>
   \<bar>double_0_7425_next - 7425 / 10000\<bar> < 2 / 10 ^ 16 \<and>
   rotor_damage_sparU (ConstraintsStructures_compute inputs) = cs_damageU_spar inputs \<and>
   rotor_damage_sparL (ConstraintsStructures_compute inputs) = cs_damageL_spar inputs \<and>
   rotor_damage_teU (ConstraintsStructures_compute inputs) = cs_damageU_te inputs \<and>
   rotor_damage_teL (ConstraintsStructures_compute inputs) = cs_damageL_te inputs"
proof -
  have general: "rotor_strain_sparU (ConstraintsStructures_compute inputs)
     = map (\<lambda>e. strain_margin e (cs_gamma_f inputs) (cs_gamma_m inputs) (cs_strain_ult_spar inputs))
         (cs_strainU_spar inputs)"
    "rotor_strain_sparL (ConstraintsStructures_compute inputs)
     = map (\<lambda>e. strain_margin e (cs_gamma_f inputs) (cs_gamma_m inputs) (cs_strain_ult_spar inputs))
         (cs_strainL_spar inputs)"
    "rotor_strain_teU (ConstraintsStructures_compute inputs)
     = map (\<lambda>e. strain_margin e (cs_gamma_f inputs) (cs_gamma_m inputs) (cs_strain_ult_te inputs))
         (cs_strainU_te inputs)"
    "rotor_strain_teL (ConstraintsStructures_compute inputs)
     = map (\<lambda>e. strain_margin e (cs_gamma_f inputs) (cs_gamma_m inputs) (cs_strain_ult_te inputs))
         (cs_strainL_te inputs)" for inputs
    by (simp_all add: ConstraintsStructures_compute_def Let_def strain_margin_def)
  have damage: "rotor_damage_sparU (ConstraintsStructures_compute inputs) = cs_damageU_spar inputs"
    "rotor_damage_sparL (ConstraintsStructures_compute inputs) = cs_damageL_spar inputs"
    "rotor_damage_teU (ConstraintsStructures_compute inputs) = cs_damageU_te inputs"
    "rotor_damage_teL (ConstraintsStructures_compute inputs) = cs_damageL_te inputs"
    by (simp_all add: ConstraintsStructures_compute_def Let_def)
  have bound: "strain_margin e gamma_f gamma_m strain_ult = Fin r \<and>
      \<bar>r - e * gamma_f * gamma_m / strain_ult\<bar>
        \<le> ((1 + 2 powi (- 53)) ^ 3 - 1) * \<bar>e * gamma_f * gamma_m / strain_ult\<bar>"
    if "d_mul (Fin gamma_f) (Fin gamma_m) = Fin g" "d_mul (Fin e) (Fin g) = Fin t"
      "d_div (Fin t) (Fin strain_ult) = Fin r"
      "2 powi (- 1022) \<le> \<bar>gamma_f * gamma_m\<bar>" "2 powi (- 1022) \<le> \<bar>e * g\<bar>"
      "2 powi (- 1022) \<le> \<bar>t / strain_ult\<bar>"
    using strain_margin_error [OF that] that(1-3) by (simp add: strain_margin_def)
  have ex: "strain_margin double_0_005 double_1_35 double_1_1 double_0_01 = Fin double_0_7425_next"
    unfolding strain_margin_def by (rule strain_margin_example)
  have example: "rotor_strain_sparU (ConstraintsStructures_compute margins_example) = [Fin double_0_7425_next]"
    "rotor_strain_sparL (ConstraintsStructures_compute margins_example) = [Fin double_0_7425_next]"
    "rotor_strain_teU (ConstraintsStructures_compute margins_example) = [Fin double_0_7425_next]"
    "rotor_strain_teL (ConstraintsStructures_compute margins_example) = [Fin double_0_7425_next]"
    unfolding general by (simp_all add: margins_example_def ex)
  have near: "\<bar>double_0_7425_next - 7425 / 10000\<bar> < 2 / 10 ^ 16"
    by (simp add: double_0_7425_next_def)
  show ?thesis
    using general damage bound example near by blast
qed


theorem ConstraintsStructures_margins_in_double_precision_witness:
  "d_mul (Fin double_1_35) (Fin double_1_1) = Fin (6687845446645188 / 2 ^ 52) \<and>
   d_mul (Fin double_0_005) (Fin (6687845446645188 / 2 ^ 52)) = Fin (8560442171705841 / 2 ^ 60) \<and>
   d_div (Fin (8560442171705841 / 2 ^ 60)) (Fin double_0_01) = Fin double_0_7425_next \<and>
   2 powi (- 1022) \<le> \<bar>double_1_35 * double_1_1\<bar> \<and>
   2 powi (- 1022) \<le> \<bar>double_0_005 * (6687845446645188 / 2 ^ 52)\<bar> \<and>
   2 powi (- 1022) \<le> \<bar>(8560442171705841 / 2 ^ 60) / double_0_01\<bar> \<and>
   strain_margin double_0_005 double_1_35 double_1_1 double_0_01 = Fin double_0_7425_next \<and>
   \<bar>double_0_7425_next - double_0_005 * double_1_35 * double_1_1 / double_0_01\<bar>
     \<le> ((1 + 2 powi (- 53)) ^ 3 - 1) * \<bar>double_0_005 * double_1_35 * double_1_1 / double_0_01\<bar>"
proof -
  have small: "(2::real) powi (- 1022) \<le> 1 / 2 ^ 10"
    using power_int_increasing [of "- 1022" "- 10" "2::real"] by simp
  have n: "2 powi (- 1022) \<le> \<bar>double_1_35 * double_1_1\<bar>"
    "2 powi (- 1022) \<le> \<bar>double_0_005 * (6687845446645188 / 2 ^ 52)\<bar>"
    "2 powi (- 1022) \<le> \<bar>(8560442171705841 / 2 ^ 60) / double_0_01\<bar>"
    using small
    by (simp_all add: double_1_35_def double_1_1_def double_0_005_def double_0_01_def
        del: power_int_minus_left)
  note h = gamma_strain_example strain_times_gamma_example margin_quotient_example n
  from ConstraintsStructures_margins_in_double_precision
    [of _ double_1_35 double_1_1 "6687845446645188 / 2 ^ 52" double_0_005
      "8560442171705841 / 2 ^ 60" double_0_01 double_0_7425_next] h
  have "strain_margin double_0_005 double_1_35 double_1_1 double_0_01 = Fin double_0_7425_next \<and>
   \<bar>double_0_7425_next - double_0_005 * double_1_35 * double_1_1 / double_0_01\<bar>
     \<le> ((1 + 2 powi (- 53)) ^ 3 - 1) * \<bar>double_0_005 * double_1_35 * double_1_1 / double_0_01\<bar>"
    by blast
  with h show ?thesis by blast
qed

text \<open>
  C7, as stated, fails: with the doubles that 0.005, 1.35, 1.1 and 0.01 denote the strain
  margin is not the double that 0.7425 denotes, and not the real 0.7425. (Evaluated from left
  to right, \<open>strain * gamma_f * gamma_m / ultimate strain\<close> does give that double: lemma
  \<open>left_to_right_example\<close>.)
\<close>

theorem ConstraintsStructures_example_counterexample:
  "to_double (5 / 1000) = Fin double_0_005 \<and> to_double (135 / 100) = Fin double_1_35 \<and>
   to_double (11 / 10) = Fin double_1_1 \<and> to_double (1 / 100) = Fin double_0_01 \<and>
   to_double (7425 / 10000) = Fin double_0_7425 \<and>
   rotor_strain_sparU (ConstraintsStructures_compute margins_example) = [Fin double_0_7425_next] \<and>
   double_0_7425_next \<noteq> double_0_7425 \<and> double_0_7425_next \<noteq> 7425 / 10000"
proof -
  have "strain_margin double_0_005 double_1_35 double_1_1 double_0_01 = Fin double_0_7425_next"
    unfolding strain_margin_def by (rule strain_margin_example)
  then have "rotor_strain_sparU (ConstraintsStructures_compute margins_example) = [Fin double_0_7425_next]"
    by (simp add: ConstraintsStructures_compute_def Let_def margins_example_def strain_margin_def)
  moreover have "double_0_7425_next \<noteq> double_0_7425" "double_0_7425_next \<noteq> 7425 / 10000"
    by (simp_all add: double_0_7425_next_def double_0_7425_def)
  ultimately show ?thesis
    using ex_0_005 decimal_constants_as_doubles by simp
qed

end
